theory Spec2Isabelle
  imports Complex_Main "HOL-Library.AList"
begin

section \<open>The console's S3 handlers (console/handler\_s3.go)\<close>

text \<open>
  Each handler of the console reads an HTTP request, resolves object-store credentials,
  issues calls against the S3 client and writes a response. The embedding below follows
  the Go source function by function. What a handler does beyond returning is made
  explicit: the external world (auth node and object store) is a state threaded through
  every call, every external call and log line is appended to a trace, the response
  writer is a record, and a run-time panic is a result of its own.
\<close>

subsection \<open>Go values\<close>

type_synonym error = string

text \<open>A Go call either returns or panics (nil dereference, failed type assertion,
  index out of range).\<close>

datatype 'a go = Ret 'a | Panic string

text \<open>What \<open>json.Unmarshal\<close> stores in an \<open>interface{}\<close>: JSON null is the nil
  interface, a number is a float64 (kept here as a rational).\<close>

datatype jvalue =
    JNull
  | JBool bool
  | JNumber rat
  | JString string
  | JArray "jvalue list"
  | JObject "(string \<times> jvalue) list"

text \<open>\<open>req[k].(string)\<close> on a \<open>map[string]interface{}\<close>: a missing key reads as the
  nil interface, and the single-value type assertion panics on everything but a string.\<close>

fun assertString :: "jvalue option \<Rightarrow> string go" where
  "assertString (Some (JString v)) = Ret v"
| "assertString _ = Panic ''interface conversion: interface {} is not string''"

subsection \<open>The request\<close>

text \<open>
  \<open>bodyData\<close> and \<open>bodyErr\<close> are the two results of \<open>ioutil.ReadAll(r.Body)\<close>;
  \<open>query\<close> is \<open>r.URL.Query()\<close>, \<open>header\<close> is \<open>r.Header\<close>; \<open>multipartForm\<close> is
  \<open>r.MultipartForm\<close> after \<open>r.ParseMultipartForm\<close> (nil when the request is not a
  multipart form), with its values and its file parts.
\<close>

record MultipartForm =
  formValue :: "(string \<times> string list) list"
  formFile :: "(string \<times> string list) list"

record request =
  bodyData :: string
  bodyErr :: "error option"
  query :: "(string \<times> string list) list"
  header :: "(string \<times> string list) list"
  multipartForm :: "MultipartForm option"

text \<open>\<open>Header.Get\<close>: the first value of the key, or the empty string.\<close>

definition header_Get :: "(string \<times> string list) list \<Rightarrow> string \<Rightarrow> string" where
  "header_Get h k = (case map_of h k of Some (v # _) \<Rightarrow> v | _ \<Rightarrow> [])"

subsection \<open>The response writer\<close>

text \<open>The console's own types \<open>Bucket\<close>, \<open>Object\<close> and \<open>ObjectList\<close> are declared
  outside this file; their fields are the ones the handlers fill in.\<close>

record Bucket =
  Name :: string
  CreateTime :: int

record Object =
  Size :: int
  OwnerId :: string
  OwnerName :: string
  ObjectName :: string
  StorageClass :: string
  LastModified :: "int option"

record ObjectList =
  KeyCount :: int
  StartAfter :: string
  IsTruncated :: bool
  Objects :: "Object list"
  Directories :: "string option list"

text \<open>The store's ACL representation (\<open>GetBucketAclOutput\<close>, \<open>GetObjectAclOutput\<close>):
  an owner and a list of grantee/permission pairs.\<close>

datatype AclOutput = AclOutput (aclOwner: "string option") (aclGrants: "(string \<times> string) list")

datatype payload =
    Buckets "Bucket list"
  | Listing ObjectList
  | Acl AclOutput

text \<open>Modelled from the spec: the response envelope, which this file writes through
  three functions it does not define. Success is a bare ok marker, error an error marker
  with a message, data an ok marker with a payload.\<close>

datatype envelope = Success | Failure string | Data payload

datatype chunk = Envelope envelope | Bytes string

text \<open>
  \<open>http.ResponseWriter\<close>: \<open>handlerHeader\<close> is the map returned by \<open>w.Header()\<close>.
  \<open>WriteHeader\<close> sends the status line and the header map as it is at that moment;
  changing the map afterwards has no effect on the response, and a second
  \<open>WriteHeader\<close> is ignored. \<open>Write\<close> sends the header with status 200 first when it
  has not been sent. \<open>sentHeader\<close> is the handler's header map as it was sent; what the
  server adds by itself (a date, a sniffed content type) is not part of the model.
\<close>

record ResponseWriter =
  handlerHeader :: "(string \<times> string) list"
  wroteHeader :: bool
  status :: nat
  sentHeader :: "(string \<times> string) list"
  body :: "chunk list"

definition rw_WriteHeader :: "nat \<Rightarrow> ResponseWriter \<Rightarrow> ResponseWriter" where
  "rw_WriteHeader code w =
     (if wroteHeader w then w
      else w\<lparr>wroteHeader := True, status := code, sentHeader := handlerHeader w\<rparr>)"

definition rw_HeaderSet :: "string \<Rightarrow> string \<Rightarrow> ResponseWriter \<Rightarrow> ResponseWriter" where
  "rw_HeaderSet k v w = w\<lparr>handlerHeader := AList.update k v (handlerHeader w)\<rparr>"

definition rw_Write :: "chunk \<Rightarrow> ResponseWriter \<Rightarrow> ResponseWriter" where
  "rw_Write d w = (let w1 = rw_WriteHeader 200 w in w1\<lparr>body := body w1 @ [d]\<rparr>)"

text \<open>\<open>io.Copy(w, src)\<close>: nothing is written when the source is empty.\<close>

definition io_Copy :: "string \<Rightarrow> ResponseWriter \<Rightarrow> ResponseWriter" where
  "io_Copy src w = (if src = [] then w else rw_Write (Bytes src) w)"

subsection \<open>The object store's client\<close>

text \<open>\<open>aws.Config\<close> with static credentials: what \<open>session.NewSession\<close> is given and
  what the client built by \<open>s3.New\<close> carries.\<close>

record aws_config =
  Region :: string
  Endpoint :: string
  AccessKeyID :: string
  SecretAccessKey :: string
  SessionToken :: string
  DisableSSL :: "bool option"
  S3ForcePathStyle :: "bool option"

text \<open>The input structs of the SDK. A field the handlers never mention stays at its
  zero value. The two ACL-setting inputs carry every ACL-bearing field of the SDK's
  struct, so that what a handler leaves unset is visible.\<close>

record ListObjectsV2Input =
  loBucket :: "string option"
  loPrefix :: "string option"
  loStartAfter :: "string option"
  loMaxKeys :: "int option"

record PutBucketAclInput =
  pbACL :: "string option"
  pbAccessControlPolicy :: "AclOutput option"
  pbBucket :: "string option"
  pbGrantFullControl :: "string option"
  pbGrantRead :: "string option"
  pbGrantReadACP :: "string option"
  pbGrantWrite :: "string option"
  pbGrantWriteACP :: "string option"

record PutObjectAclInput =
  poACL :: "string option"
  poAccessControlPolicy :: "AclOutput option"
  poBucket :: "string option"
  poGrantFullControl :: "string option"
  poGrantRead :: "string option"
  poGrantReadACP :: "string option"
  poGrantWrite :: "string option"
  poGrantWriteACP :: "string option"
  poKey :: "string option"

definition PutBucketAclInput0 :: PutBucketAclInput where
  "PutBucketAclInput0 =
     \<lparr>pbACL = None, pbAccessControlPolicy = None, pbBucket = None, pbGrantFullControl = None,
      pbGrantRead = None, pbGrantReadACP = None, pbGrantWrite = None, pbGrantWriteACP = None\<rparr>"

definition PutObjectAclInput0 :: PutObjectAclInput where
  "PutObjectAclInput0 =
     \<lparr>poACL = None, poAccessControlPolicy = None, poBucket = None, poGrantFullControl = None,
      poGrantRead = None, poGrantReadACP = None, poGrantWrite = None, poGrantWriteACP = None,
      poKey = None\<rparr>"

datatype s3_call =
    ListBuckets
  | CreateBucket string
  | DeleteBucket string
  | WaitUntilBucketNotExists string
  | PutObject string string "string option"
  | HeadObject string string
  | GetObject string string
  | DeleteObject string string
  | ListObjectsV2 ListObjectsV2Input
  | GetBucketAcl string
  | PutBucketAcl PutBucketAclInput
  | GetObjectAcl string string
  | PutObjectAcl PutObjectAclInput

text \<open>The output structs of the SDK, with the fields the handlers read. A pointer field
  is an option.\<close>

datatype s3_Bucket = s3_Bucket (bName: "string option") (bCreationDate: "int option")

datatype s3_Owner = s3_Owner (oDisplayName: "string option") (oID: "string option")

record s3_Object =
  objKey :: "string option"
  objLastModified :: "int option"
  objOwner :: "s3_Owner option"
  objSize :: "int option"
  objStorageClass :: "string option"

record ListObjectsV2Output =
  outCommonPrefixes :: "string option list"
  outContents :: "s3_Object list"
  outIsTruncated :: "bool option"
  outKeyCount :: "int option"
  outStartAfter :: "string option"

subsection \<open>The handler's state\<close>

datatype event =
    LogError string
  | LogInfo string
  | Stdout
  | AuthCall string string string
  | S3Call aws_config s3_call

text \<open>
  \<open>world\<close> is the state of the auth node and of the object store, \<open>trace\<close> the calls
  issued and the log lines written so far (a log line is recorded by its format
  string), \<open>rw\<close> the response writer.
\<close>

record 'w hstate =
  world :: 'w
  trace :: "event list"
  rw :: ResponseWriter

text \<open>
  What the handlers call and this file does not define: the JSON decoder, the session
  constructor, the auth node's client and the operations of the S3 client. Each external
  operation takes the world and returns its Go results with the world after the call.
  \<open>json_Unmarshal\<close> into a nil \<open>map[string]interface{}\<close> returns both what the call
  leaves in the map and its error: a body that is not JSON gives an error and leaves
  the map nil (empty), while a type error (a number outside float64, say) is returned
  after the map has been filled. \<open>sdk_GetObject\<close> returns the output's \<open>Body\<close> and the
  error separately, as the handler reads both. \<open>S3ListObjectsMaxKeys\<close> is a constant of
  the package declared outside this file.
\<close>

record 'w extern =
  json_Unmarshal :: "string \<Rightarrow> (string \<times> jvalue) list \<times> error option"
  NewSession :: "aws_config \<Rightarrow> error option"
  AdminGetCaps :: "string \<Rightarrow> string \<Rightarrow> string \<Rightarrow> 'w \<Rightarrow> (error + string \<times> string) \<times> 'w"
  S3ListObjectsMaxKeys :: string
  sdk_ListBuckets :: "aws_config \<Rightarrow> 'w \<Rightarrow> (error + s3_Bucket list) \<times> 'w"
  sdk_CreateBucket :: "aws_config \<Rightarrow> string \<Rightarrow> 'w \<Rightarrow> error option \<times> 'w"
  sdk_DeleteBucket :: "aws_config \<Rightarrow> string \<Rightarrow> 'w \<Rightarrow> error option \<times> 'w"
  sdk_WaitUntilBucketNotExists :: "aws_config \<Rightarrow> string \<Rightarrow> 'w \<Rightarrow> error option \<times> 'w"
  sdk_PutObject :: "aws_config \<Rightarrow> string \<Rightarrow> string \<Rightarrow> string option \<Rightarrow> 'w \<Rightarrow> error option \<times> 'w"
  sdk_HeadObject :: "aws_config \<Rightarrow> string \<Rightarrow> string \<Rightarrow> 'w \<Rightarrow> (error + int option) \<times> 'w"
  sdk_GetObject :: "aws_config \<Rightarrow> string \<Rightarrow> string \<Rightarrow> 'w \<Rightarrow> (string option \<times> error option) \<times> 'w"
  sdk_DeleteObject :: "aws_config \<Rightarrow> string \<Rightarrow> string \<Rightarrow> 'w \<Rightarrow> error option \<times> 'w"
  sdk_ListObjectsV2 :: "aws_config \<Rightarrow> ListObjectsV2Input \<Rightarrow> 'w \<Rightarrow> (error + ListObjectsV2Output) \<times> 'w"
  sdk_GetBucketAcl :: "aws_config \<Rightarrow> string \<Rightarrow> 'w \<Rightarrow> (error + AclOutput) \<times> 'w"
  sdk_PutBucketAcl :: "aws_config \<Rightarrow> PutBucketAclInput \<Rightarrow> 'w \<Rightarrow> error option \<times> 'w"
  sdk_GetObjectAcl :: "aws_config \<Rightarrow> string \<Rightarrow> string \<Rightarrow> 'w \<Rightarrow> (error + AclOutput) \<times> 'w"
  sdk_PutObjectAcl :: "aws_config \<Rightarrow> PutObjectAclInput \<Rightarrow> 'w \<Rightarrow> error option \<times> 'w"

text \<open>The fields of \<open>Console\<close> this file reads.\<close>

record Console =
  consoleId :: string
  consoleKey :: string
  s3Region :: string
  s3Endpoint :: string

definition logErrorf :: "string \<Rightarrow> 'w hstate \<Rightarrow> 'w hstate" where
  "logErrorf fmt s = s\<lparr>trace := trace s @ [LogError fmt]\<rparr>"

definition logInfof :: "string \<Rightarrow> 'w hstate \<Rightarrow> 'w hstate" where
  "logInfof fmt s = s\<lparr>trace := trace s @ [LogInfo fmt]\<rparr>"

text \<open>An external call: run it on the world, record it in the trace.\<close>

definition extcall :: "event \<Rightarrow> ('w \<Rightarrow> 'r \<times> 'w) \<Rightarrow> 'w hstate \<Rightarrow> 'r \<times> 'w hstate" where
  "extcall ev f s =
     (case f (world s) of (r, w') \<Rightarrow> (r, s\<lparr>world := w', trace := trace s @ [ev]\<rparr>))"

text \<open>Modelled from the spec: \<open>writeErrorResponse\<close>, \<open>writeSuccessResponse\<close> and
  \<open>writeDataResponse\<close> are called here and defined elsewhere in the package. Each wraps
  its payload in the envelope and writes it to the response.\<close>

definition writeErrorResponse :: "string \<Rightarrow> 'w hstate \<Rightarrow> 'w hstate" where
  "writeErrorResponse msg s = s\<lparr>rw := rw_Write (Envelope (Failure msg)) (rw s)\<rparr>"

definition writeSuccessResponse :: "'w hstate \<Rightarrow> 'w hstate" where
  "writeSuccessResponse s = s\<lparr>rw := rw_Write (Envelope Success) (rw s)\<rparr>"

definition writeDataResponse :: "payload \<Rightarrow> 'w hstate \<Rightarrow> 'w hstate" where
  "writeDataResponse d s = s\<lparr>rw := rw_Write (Envelope (Data d)) (rw s)\<rparr>"

subsection \<open>Credentials and client\<close>

text \<open>\<open>getS3Keys\<close>: \<open>params["userId"]\<close> is the nil slice when the parameter is absent,
  and \<open>userId[0]\<close> is an index into it.\<close>

definition getS3Keys ::
  "'w extern \<Rightarrow> Console \<Rightarrow> request \<Rightarrow> 'w hstate \<Rightarrow> (error + string \<times> string) go \<times> 'w hstate" where
  "getS3Keys x c r s =
     (let userId = (case map_of (query r) ''userId'' of None \<Rightarrow> [] | Some vs \<Rightarrow> vs) in
      case userId of
        [] \<Rightarrow> (Panic ''index out of range'', s)
      | u # _ \<Rightarrow>
          if length u = 0 then
            (Ret (Inl ''can not get user id from request''),
             logErrorf ''getS3Keys : user id is empty'' s)
          else
            (case extcall (AuthCall (consoleId c) (consoleKey c) u)
                    (AdminGetCaps x (consoleId c) (consoleKey c) u) s of
               (Inl err, s1) \<Rightarrow>
                 (Ret (Inl err),
                  logErrorf ''getS3Keys : get access key and secret key from auth node'' s1)
             | (Inr keyInfo, s1) \<Rightarrow> (Ret (Inr (fst keyInfo, snd keyInfo)), s1)))"

definition getS3Client ::
  "'w extern \<Rightarrow> Console \<Rightarrow> request \<Rightarrow> 'w hstate \<Rightarrow> (error + aws_config) go \<times> 'w hstate" where
  "getS3Client x c r s =
     (case getS3Keys x c r s of
        (Panic p, s1) \<Rightarrow> (Panic p, s1)
      | (Ret (Inl err), s1) \<Rightarrow>
          (Ret (Inl err), logErrorf ''getS3Client : get user info failed cause : %s'' s1)
      | (Ret (Inr (accessKey, secretKey)), s1) \<Rightarrow>
          (let cfg = \<lparr>Region = s3Region c, Endpoint = s3Endpoint c, AccessKeyID = accessKey,
                      SecretAccessKey = secretKey, SessionToken = ''23'',
                      DisableSSL = None, S3ForcePathStyle = None\<rparr> in
           case NewSession x cfg of
             Some err \<Rightarrow>
               (Ret (Inl err),
                logErrorf ''getS3Client : create s3 client session failed cause : %s'' s1)
           | None \<Rightarrow> (Ret (Inr cfg), s1)))"

subsection \<open>Library functions the handlers use\<close>

text \<open>\<open>aws.StringValue\<close>, \<open>aws.Int64Value\<close>, \<open>aws.BoolValue\<close>: the pointed-to value, or
  the zero value for nil.\<close>

definition StringValue :: "string option \<Rightarrow> string" where
  "StringValue p = (case p of None \<Rightarrow> [] | Some v \<Rightarrow> v)"

definition Int64Value :: "int option \<Rightarrow> int" where
  "Int64Value p = (case p of None \<Rightarrow> 0 | Some v \<Rightarrow> v)"

definition BoolValue :: "bool option \<Rightarrow> bool" where
  "BoolValue p = (case p of None \<Rightarrow> False | Some v \<Rightarrow> v)"

text \<open>
  \<open>strconv.ParseInt(s, 10, 64)\<close>. It returns a value together with the error: 0 on a
  syntax error, the nearest bound of int64 on a range error. \<open>ParseUint\<close> reads the
  digits left to right and stops at the first character that is not a digit or at the
  first overflow of 64 bits.
\<close>

datatype NumError = ErrSyntax | ErrRange

definition digitVal :: "char \<Rightarrow> int option" where
  "digitVal ch =
     map_of [(CHR ''0'', 0), (CHR ''1'', 1), (CHR ''2'', 2), (CHR ''3'', 3), (CHR ''4'', 4),
             (CHR ''5'', 5), (CHR ''6'', 6), (CHR ''7'', 7), (CHR ''8'', 8), (CHR ''9'', 9)] ch"

definition maxUint64 :: int where
  "maxUint64 = 18446744073709551615"

text \<open>The accumulator \<open>n\<close> is a uint64 in the source; here it is an unbounded integer,
  and the source's two overflow tests (\<open>n >= cutoff\<close> before the multiplication, wrap-around
  or \<open>n1 > maxVal\<close> after the addition) are the two comparisons with \<open>maxUint64\<close>.\<close>

fun parseUintLoop :: "string \<Rightarrow> int \<Rightarrow> int \<times> NumError option" where
  "parseUintLoop [] n = (n, None)"
| "parseUintLoop (ch # cs) n =
     (case digitVal ch of
        None \<Rightarrow> (0, Some ErrSyntax)
      | Some d \<Rightarrow>
          if n \<ge> maxUint64 div 10 + 1 then (maxUint64, Some ErrRange)
          else if n * 10 + d > maxUint64 then (maxUint64, Some ErrRange)
          else parseUintLoop cs (n * 10 + d))"

definition ParseUint :: "string \<Rightarrow> int \<times> NumError option" where
  "ParseUint s = (if s = [] then (0, Some ErrSyntax) else parseUintLoop s 0)"

definition ParseInt :: "string \<Rightarrow> int \<times> NumError option" where
  "ParseInt s =
     (case s of
        [] \<Rightarrow> (0, Some ErrSyntax)
      | ch # cs \<Rightarrow>
          (let neg = (ch = CHR ''-'');
               s1 = (if ch = CHR ''+'' \<or> ch = CHR ''-'' then cs else s);
               cutoff = (9223372036854775808 :: int) in
           case ParseUint s1 of
             (un, Some ErrSyntax) \<Rightarrow> (0, Some ErrSyntax)
           | (un, _) \<Rightarrow>
               if \<not> neg \<and> un \<ge> cutoff then (cutoff - 1, Some ErrRange)
               else if neg \<and> un > cutoff then (- cutoff, Some ErrRange)
               else (if neg then - un else un, None)))"

text \<open>\<open>strconv.FormatInt(i, 10)\<close>.\<close>

definition digitChar :: "int \<Rightarrow> char" where
  "digitChar d = ''0123456789'' ! nat d"

function formatUint :: "int \<Rightarrow> string" where
  "formatUint n =
     (if n < 10 then [digitChar n]
      else formatUint (n div 10) @ [digitChar (n mod 10)])"
  by pat_completeness auto
termination
  by (relation "measure nat") auto

declare formatUint.simps [simp del]

definition FormatInt :: "int \<Rightarrow> string" where
  "FormatInt i = (if i < 0 then CHR ''-'' # formatUint (- i) else formatUint i)"

text \<open>\<open>var req map[string]interface{}; json.Unmarshal(body, &req)\<close> with the error
  dropped: the handlers go on with whatever the call left in \<open>req\<close>.\<close>

definition decodeBody :: "'w extern \<Rightarrow> request \<Rightarrow> (string \<times> jvalue) list" where
  "decodeBody x r = fst (json_Unmarshal x (bodyData r))"

subsection \<open>Bucket handlers\<close>

text \<open>The loop over \<open>response.Buckets\<close> dereferences \<open>b.Name\<close> and \<open>b.CreationDate\<close>.\<close>

fun bucketsLoop :: "s3_Bucket list \<Rightarrow> Bucket list \<Rightarrow> Bucket list go" where
  "bucketsLoop [] buckets = Ret buckets"
| "bucketsLoop (b # bs) buckets =
     (case (bName b, bCreationDate b) of
        (Some n, Some t) \<Rightarrow> bucketsLoop bs (buckets @ [\<lparr>Name = n, CreateTime = t\<rparr>])
      | _ \<Rightarrow> Panic ''invalid memory address or nil pointer dereference'')"

definition getBucketListHandler ::
  "'w extern \<Rightarrow> Console \<Rightarrow> request \<Rightarrow> 'w hstate \<Rightarrow> unit go \<times> 'w hstate" where
  "getBucketListHandler x c r s =
     (case getS3Client x c r s of
        (Panic p, s1) \<Rightarrow> (Panic p, s1)
      | (Ret (Inl err), s1) \<Rightarrow>
          (Ret (), writeErrorResponse ''Get s3 client failed''
             (logErrorf ''getBucketListHandler : Get s3 client failed cause : %s'' s1))
      | (Ret (Inr s3Client), s1) \<Rightarrow>
          (case extcall (S3Call s3Client ListBuckets) (sdk_ListBuckets x s3Client) s1 of
             (Inl err, s2) \<Rightarrow>
               (Ret (), writeErrorResponse ''List buckets failed''
                  (logErrorf ''getBucketListHandler : list buckets failed cause : %s'' s2))
           | (Inr response, s2) \<Rightarrow>
               (case bucketsLoop response [] of
                  Panic p \<Rightarrow> (Panic p, s2)
                | Ret buckets \<Rightarrow> (Ret (), writeDataResponse (Buckets buckets) s2))))"

definition createBucketHandler ::
  "'w extern \<Rightarrow> Console \<Rightarrow> request \<Rightarrow> 'w hstate \<Rightarrow> unit go \<times> 'w hstate" where
  "createBucketHandler x c r s =
     (let req = decodeBody x r in
      case bodyErr r of
        Some err \<Rightarrow>
          (Ret (), writeErrorResponse ''Create bucket failed''
             (logErrorf ''createBucketHandler : get bucket name failed cause : %s'' s))
      | None \<Rightarrow>
          (case assertString (map_of req ''bucketName'') of
             Panic p \<Rightarrow> (Panic p, s)
           | Ret bucketName \<Rightarrow>
               (case getS3Client x c r s of
                  (Panic p, s1) \<Rightarrow> (Panic p, s1)
                | (Ret (Inl err), s1) \<Rightarrow>
                    (Ret (), writeErrorResponse ''Get s3 client failed''
                       (logErrorf ''createBucketHandler : get s3 client failed while create bucket %s cause : %s'' s1))
                | (Ret (Inr s3Client), s1) \<Rightarrow>
                    (case extcall (S3Call s3Client (CreateBucket bucketName))
                            (sdk_CreateBucket x s3Client bucketName) s1 of
                       (Some err, s2) \<Rightarrow>
                         (Ret (), writeErrorResponse ''Create bucket failed''
                            (logErrorf ''createBucketHandler : create bucket %s failed cause : %s'' s2))
                     | (None, s2) \<Rightarrow>
                         (Ret (), writeSuccessResponse
                            (logInfof ''Create bucket %s success'' s2))))))"

text \<open>\<open>deleteBucketHandler\<close>: the error of \<open>WaitUntilBucketNotExists\<close> is assigned to
  \<open>err\<close> and not read again.\<close>

definition deleteBucketHandler ::
  "'w extern \<Rightarrow> Console \<Rightarrow> request \<Rightarrow> 'w hstate \<Rightarrow> unit go \<times> 'w hstate" where
  "deleteBucketHandler x c r s =
     (let req = decodeBody x r in
      case bodyErr r of
        Some err \<Rightarrow>
          (Ret (), writeErrorResponse ''Get bucket name failed''
             (logErrorf ''deleteBucketHandler : get bucket name failed cause : %s'' s))
      | None \<Rightarrow>
          (case assertString (map_of req ''bucketName'') of
             Panic p \<Rightarrow> (Panic p, s)
           | Ret bucketName \<Rightarrow>
               (case getS3Client x c r s of
                  (Panic p, s1) \<Rightarrow> (Panic p, s1)
                | (Ret (Inl err), s1) \<Rightarrow>
                    (Ret (), writeErrorResponse ''Get s3 client failed''
                       (logErrorf ''deleteBucketHandler : get s3 client failed while deleting bucket %s cause : %s'' s1))
                | (Ret (Inr s3Client), s1) \<Rightarrow>
                    (case extcall (S3Call s3Client (DeleteBucket bucketName))
                            (sdk_DeleteBucket x s3Client bucketName) s1 of
                       (Some err, s2) \<Rightarrow>
                         (Ret (), writeErrorResponse ''Delete bucket failed''
                            (logErrorf ''deleteBucketHandler : delete bucket %s failed cause : %s'' s2))
                     | (None, s2) \<Rightarrow>
                         (case extcall (S3Call s3Client (WaitUntilBucketNotExists bucketName))
                                 (sdk_WaitUntilBucketNotExists x s3Client bucketName) s2 of
                            (err, s3) \<Rightarrow>
                              (Ret (), writeSuccessResponse
                                 (logInfof ''Delete bucket %s success'' s3)))))))"

subsection \<open>Object handlers\<close>

text \<open>
  \<open>putObjectHandler\<close>: \<open>r.MultipartForm.Value\<close> dereferences the form, and
  \<open>Value[k][0]\<close> indexes the values of a key (the nil slice when the key is absent).
  \<open>r.FormFile\<close> gives the first file of the key or an error. The value map is printed
  to standard output. The deferred \<open>file.Close()\<close> has no effect on the response or the
  store and is left out.
\<close>

definition formValue0 :: "MultipartForm \<Rightarrow> string \<Rightarrow> string go" where
  "formValue0 f k =
     (case map_of (formValue f) k of
        Some (v # _) \<Rightarrow> Ret v
      | _ \<Rightarrow> Panic ''index out of range'')"

definition FormFile :: "MultipartForm \<Rightarrow> string \<Rightarrow> error + string" where
  "FormFile f k =
     (case map_of (formFile f) k of
        Some (d # _) \<Rightarrow> Inr d
      | _ \<Rightarrow> Inl ''http: no such file'')"

definition putObjectHandler ::
  "'w extern \<Rightarrow> Console \<Rightarrow> request \<Rightarrow> 'w hstate \<Rightarrow> unit go \<times> 'w hstate" where
  "putObjectHandler x c r s =
     (case multipartForm r of
        None \<Rightarrow> (Panic ''invalid memory address or nil pointer dereference'', s)
      | Some form \<Rightarrow>
          (let s0 = s\<lparr>trace := trace s @ [Stdout]\<rparr> in
           case formValue0 form ''bucketName'' of
             Panic p \<Rightarrow> (Panic p, s0)
           | Ret bucketName \<Rightarrow>
               (case formValue0 form ''objectName'' of
                  Panic p \<Rightarrow> (Panic p, s0)
                | Ret objectName \<Rightarrow>
                    (case FormFile form ''file'' of
                       Inl err \<Rightarrow>
                         (Ret (), writeErrorResponse ''Put object failed''
                            (logErrorf ''putObjectHandler : get file from request failed cause : %s'' s0))
                     | Inr file \<Rightarrow>
                         (case getS3Client x c r s0 of
                            (Panic p, s1) \<Rightarrow> (Panic p, s1)
                          | (Ret (Inl err), s1) \<Rightarrow>
                              (Ret (), writeErrorResponse ''Get s3 client failed''
                                 (logErrorf ''putObjectHandler : Get s3 client failed while putting object %s cause : %s'' s1))
                          | (Ret (Inr s3Client), s1) \<Rightarrow>
                              (case extcall (S3Call s3Client (PutObject bucketName objectName (Some file)))
                                      (sdk_PutObject x s3Client bucketName objectName (Some file)) s1 of
                                 (Some err, s2) \<Rightarrow>
                                   (Ret (), writeErrorResponse ''Put object failed''
                                      (logErrorf ''putObjectHandler : put object %s to bucket %s failed cause : %s'' s2))
                               | (None, s2) \<Rightarrow>
                                   (Ret (), writeSuccessResponse
                                      (logInfof ''Put object %s success, and ETag : %s'' s2))))))))"

text \<open>
  \<open>getObjectHandler\<close>. After a failed probe the handler logs and returns. The body of
  the fetch's output is read, and its \<open>Close\<close> deferred, before the fetch's error is
  looked at: deferring a method of a nil body panics. On success the status is written
  first and the three headers are set on the header map afterwards; \<open>*size\<close>
  dereferences the probe's content length.
\<close>

definition getObjectHandler ::
  "'w extern \<Rightarrow> Console \<Rightarrow> request \<Rightarrow> 'w hstate \<Rightarrow> unit go \<times> 'w hstate" where
  "getObjectHandler x c r s =
     (let req = decodeBody x r in
      case bodyErr r of
        Some err \<Rightarrow>
          (Ret (), writeErrorResponse ''Get object parameters failed''
             (logErrorf ''getObjectHandler : Unmarshal request body failed cause : %s'' s))
      | None \<Rightarrow>
          (case assertString (map_of req ''bucketName'') of
             Panic p \<Rightarrow> (Panic p, s)
           | Ret bucketName \<Rightarrow>
          (case assertString (map_of req ''objectName'') of
             Panic p \<Rightarrow> (Panic p, s)
           | Ret objectName \<Rightarrow>
               (case getS3Client x c r s of
                  (Panic p, s1) \<Rightarrow> (Panic p, s1)
                | (Ret (Inl err), s1) \<Rightarrow>
                    (Ret (), writeErrorResponse ''Get s3 client failed''
                       (logErrorf ''getObjectHandler : Get s3 client failed while getting object cause : %s'' s1))
                | (Ret (Inr s3Client), s1) \<Rightarrow>
                    (case extcall (S3Call s3Client (HeadObject bucketName objectName))
                            (sdk_HeadObject x s3Client bucketName objectName) s1 of
                       (Inl err, s2) \<Rightarrow>
                         (Ret (), logErrorf ''getObjectHandler : check object %s is whether existed failed cause : %s'' s2)
                     | (Inr size64, s2) \<Rightarrow>
                         (case extcall (S3Call s3Client (GetObject bucketName objectName))
                                 (sdk_GetObject x s3Client bucketName objectName) s2 of
                            ((None, err), s3) \<Rightarrow>
                              (Panic ''invalid memory address or nil pointer dereference'', s3)
                          | ((Some responseData, Some err), s3) \<Rightarrow>
                              (Ret (), writeErrorResponse ''Get object failed''
                                 (logErrorf ''getObjectHandler : get object %s from bucket %s failed cause : %s'' s3))
                          | ((Some responseData, None), s3) \<Rightarrow>
                              (let w1 = rw_WriteHeader 200 (rw s3);
                                   w2 = rw_HeaderSet ''Content-Type'' (header_Get (header r) ''Content-Type'') w1;
                                   w3 = rw_HeaderSet ''Content-Disposition'' (''attachment; filename='' @ objectName) w2 in
                               case size64 of
                                 None \<Rightarrow>
                                   (Panic ''invalid memory address or nil pointer dereference'', s3\<lparr>rw := w3\<rparr>)
                               | Some n \<Rightarrow>
                                   (let w4 = rw_HeaderSet ''Content-Length'' (FormatInt n) w3 in
                                    (Ret (), s3\<lparr>rw := io_Copy responseData w4\<rparr>)))))))))"

definition deleteObjectHandler ::
  "'w extern \<Rightarrow> Console \<Rightarrow> request \<Rightarrow> 'w hstate \<Rightarrow> unit go \<times> 'w hstate" where
  "deleteObjectHandler x c r s =
     (let req = decodeBody x r in
      case bodyErr r of
        Some err \<Rightarrow>
          (Ret (), writeErrorResponse ''Get object parameters from request failed''
             (logErrorf ''deleteObjectHandler : Unmarshal request body failed cause : %s'' s))
      | None \<Rightarrow>
          (case assertString (map_of req ''bucketName'') of
             Panic p \<Rightarrow> (Panic p, s)
           | Ret bucketName \<Rightarrow>
          (case assertString (map_of req ''objectName'') of
             Panic p \<Rightarrow> (Panic p, s)
           | Ret objectName \<Rightarrow>
               (case getS3Client x c r s of
                  (Panic p, s1) \<Rightarrow> (Panic p, s1)
                | (Ret (Inl err), s1) \<Rightarrow>
                    (Ret (), writeErrorResponse ''Get s3 client failed''
                       (logErrorf ''deleteObjectHandler : Get s3 client failed while deleting object cause : %s'' s1))
                | (Ret (Inr s3Client), s1) \<Rightarrow>
                    (case extcall (S3Call s3Client (DeleteObject bucketName objectName))
                            (sdk_DeleteObject x s3Client bucketName objectName) s1 of
                       (Some err, s2) \<Rightarrow>
                         (Ret (), writeErrorResponse ''Delete object failed''
                            (logErrorf ''deleteObjectHandler : delete object %s from bucket %s failed cause : %s'' s2))
                     | (None, s2) \<Rightarrow>
                         (Ret (), writeSuccessResponse
                            (logInfof ''Delete object %s success'' s2)))))))"

text \<open>
  \<open>getObjectListHandler\<close>: the four fields are read with single-value type
  assertions, in the order prefix, maxKeys, startAfter, bucketName. \<open>maxKeysInt\<close> starts
  as the parsed package constant and is assigned the result of parsing the request's
  \<open>maxKeys\<close> when that is not empty; the parse error is logged.
\<close>

fun objectsLoop :: "s3_Object list \<Rightarrow> Object list \<Rightarrow> Object list go" where
  "objectsLoop [] objects = Ret objects"
| "objectsLoop (ob # obs) objects =
     (case objOwner ob of
        None \<Rightarrow> Panic ''invalid memory address or nil pointer dereference''
      | Some owner \<Rightarrow>
          objectsLoop obs
            (objects @ [\<lparr>Size = Int64Value (objSize ob), OwnerId = StringValue (oID owner),
                         OwnerName = StringValue (oDisplayName owner),
                         ObjectName = StringValue (objKey ob),
                         StorageClass = StringValue (objStorageClass ob),
                         LastModified = objLastModified ob\<rparr>]))"

definition listInput ::
  "string \<Rightarrow> string \<Rightarrow> string \<Rightarrow> int \<Rightarrow> ListObjectsV2Input" where
  "listInput bucketName prefix startAfter maxKeysInt =
     (let input0 = \<lparr>loBucket = Some bucketName, loPrefix = None, loStartAfter = None,
                     loMaxKeys = None\<rparr>;
          input1 = (if length prefix > 0 then input0\<lparr>loPrefix := Some prefix\<rparr> else input0);
          input2 = (if length startAfter > 0 then input1\<lparr>loStartAfter := Some startAfter\<rparr>
                    else input1)
      in input2\<lparr>loMaxKeys := Some maxKeysInt\<rparr>)"

definition getObjectListHandler ::
  "'w extern \<Rightarrow> Console \<Rightarrow> request \<Rightarrow> 'w hstate \<Rightarrow> unit go \<times> 'w hstate" where
  "getObjectListHandler x c r s =
     (let req = decodeBody x r in
      case bodyErr r of
        Some err \<Rightarrow>
          (Ret (), writeErrorResponse ''Get bucket name from request failed''
             (logErrorf ''getObjectListHandler : Unmarshal request body failed cause : %s'' s))
      | None \<Rightarrow>
          (case assertString (map_of req ''prefix'') of
             Panic p \<Rightarrow> (Panic p, s)
           | Ret prefix \<Rightarrow>
          (case assertString (map_of req ''maxKeys'') of
             Panic p \<Rightarrow> (Panic p, s)
           | Ret maxKeys \<Rightarrow>
          (case assertString (map_of req ''startAfter'') of
             Panic p \<Rightarrow> (Panic p, s)
           | Ret startAfter \<Rightarrow>
          (case assertString (map_of req ''bucketName'') of
             Panic p \<Rightarrow> (Panic p, s)
           | Ret bucketName \<Rightarrow>
               (case getS3Client x c r s of
                  (Panic p, s1) \<Rightarrow> (Panic p, s1)
                | (Ret (Inl err), s1) \<Rightarrow>
                    (Ret (), writeErrorResponse ''Get s3 client failed''
                       (logErrorf ''getObjectListHandler : Get s3 client failed while deleting object cause : %s'' s1))
                | (Ret (Inr s3Client), s1) \<Rightarrow>
                    (let maxKeysInt0 = fst (ParseInt (S3ListObjectsMaxKeys x));
                         (maxKeysInt, s2) =
                           (if length maxKeys > 0 then
                              (case ParseInt maxKeys of
                                 (v, Some err) \<Rightarrow>
                                   (v, logErrorf ''Parse max keys from request failed cause : %s'' s1)
                               | (v, None) \<Rightarrow> (v, s1))
                            else (maxKeysInt0, s1));
                         input = listInput bucketName prefix startAfter maxKeysInt in
                     case extcall (S3Call s3Client (ListObjectsV2 input))
                            (sdk_ListObjectsV2 x s3Client input) s2 of
                       (Inl err, s3) \<Rightarrow>
                         (Ret (), writeErrorResponse ''Delete object failed''
                            (logErrorf ''getObjectListHandler : get object list from bucket %s failed cause : %s'' s3))
                     | (Inr output, s3) \<Rightarrow>
                         (case objectsLoop (outContents output) [] of
                            Panic p \<Rightarrow> (Panic p, s3)
                          | Ret objects \<Rightarrow>
                              (Ret (), writeDataResponse
                                 (Listing \<lparr>KeyCount = Int64Value (outKeyCount output),
                                           StartAfter = StringValue (outStartAfter output),
                                           IsTruncated = BoolValue (outIsTruncated output),
                                           Objects = objects,
                                           Directories = outCommonPrefixes output\<rparr>) s3)))))))))"

subsection \<open>Folder and ACL handlers\<close>

text \<open>
  \<open>prepareHandler\<close> builds the client from fixed credentials, reads and decodes the
  body, and checks each name of \<open>args\<close> for presence in the decoded map, in order.
\<close>

fun checkArgs :: "(string \<times> jvalue) list \<Rightarrow> string list \<Rightarrow> error option" where
  "checkArgs req [] = None"
| "checkArgs req (arg # args) =
     (case map_of req arg of
        None \<Rightarrow> Some (''can't find param ['' @ arg @ '']'')
      | Some _ \<Rightarrow> checkArgs req args)"

definition prepareHandler ::
  "'w extern \<Rightarrow> request \<Rightarrow> string list \<Rightarrow> error + aws_config \<times> (string \<times> jvalue) list" where
  "prepareHandler x r args =
     (let region = ''cfs_default'';
          accessKey = ''YqgyNwuMUielu8pN'';
          secretKey = ''TDp9RplFfEG9VwGHvtKIV7357aPM3OvZ'';
          endPoint = ''http://127.0.0.1:32793'' in
      case bodyErr r of
        Some err \<Rightarrow> Inl (''read request body failed cause by ['' @ err @ '']'')
      | None \<Rightarrow>
          (let req = decodeBody x r in
           case checkArgs req args of
             Some errInfo \<Rightarrow> Inl errInfo
           | None \<Rightarrow>
               (let cfg = \<lparr>Region = region, Endpoint = endPoint, AccessKeyID = accessKey,
                           SecretAccessKey = secretKey, SessionToken = [],
                           DisableSSL = Some False, S3ForcePathStyle = Some True\<rparr> in
                case NewSession x cfg of
                  Some err \<Rightarrow> Inl (''create s3 client session failed cause by ['' @ err @ '']'')
                | None \<Rightarrow> Inr (cfg, req))))"

definition createFolderHandler ::
  "'w extern \<Rightarrow> Console \<Rightarrow> request \<Rightarrow> 'w hstate \<Rightarrow> unit go \<times> 'w hstate" where
  "createFolderHandler x c r s =
     (let failedResponseInfo = ''create folder failed!!!'' in
      case prepareHandler x r [''bucketName'', ''folderName'', ''parentName''] of
        Inl err \<Rightarrow> (Ret (), writeErrorResponse failedResponseInfo (logErrorf ''%s(): %s'' s))
      | Inr (s3Client, req) \<Rightarrow>
          (case assertString (map_of req ''bucketName'') of
             Panic p \<Rightarrow> (Panic p, s)
           | Ret bucketName \<Rightarrow>
          (case assertString (map_of req ''folderName'') of
             Panic p \<Rightarrow> (Panic p, s)
           | Ret folderName \<Rightarrow>
          (case assertString (map_of req ''parentName'') of
             Panic p \<Rightarrow> (Panic p, s)
           | Ret parentName \<Rightarrow>
               (case extcall (S3Call s3Client (PutObject bucketName (parentName @ folderName) None))
                       (sdk_PutObject x s3Client bucketName (parentName @ folderName) None) s of
                  (Some err, s1) \<Rightarrow>
                    (Ret (), writeErrorResponse failedResponseInfo
                       (logErrorf ''%s(): create folder failed cause by [%v]'' s1))
                | (None, s1) \<Rightarrow> (Ret (), writeSuccessResponse s1))))))"

text \<open>\<open>listFolderHandler\<close> and \<open>deleteFolderHandler\<close> have empty bodies.\<close>

definition listFolderHandler ::
  "'w extern \<Rightarrow> Console \<Rightarrow> request \<Rightarrow> 'w hstate \<Rightarrow> unit go \<times> 'w hstate" where
  "listFolderHandler x c r s = (Ret (), s)"

definition deleteFolderHandler ::
  "'w extern \<Rightarrow> Console \<Rightarrow> request \<Rightarrow> 'w hstate \<Rightarrow> unit go \<times> 'w hstate" where
  "deleteFolderHandler x c r s = (Ret (), s)"

definition getBucketAclHandler ::
  "'w extern \<Rightarrow> Console \<Rightarrow> request \<Rightarrow> 'w hstate \<Rightarrow> unit go \<times> 'w hstate" where
  "getBucketAclHandler x c r s =
     (let failedResponseInfo = ''get bucket acl failed!!!'' in
      case prepareHandler x r [''bucketName''] of
        Inl err \<Rightarrow> (Ret (), writeErrorResponse failedResponseInfo (logErrorf ''%s(): %s'' s))
      | Inr (s3Client, req) \<Rightarrow>
          (case assertString (map_of req ''bucketName'') of
             Panic p \<Rightarrow> (Panic p, s)
           | Ret bucketName \<Rightarrow>
               (case extcall (S3Call s3Client (GetBucketAcl bucketName))
                       (sdk_GetBucketAcl x s3Client bucketName) s of
                  (Inl err, s1) \<Rightarrow>
                    (Ret (), writeErrorResponse failedResponseInfo
                       (logErrorf ''%s(): get bucket acl failed cause by [%v]'' s1))
                | (Inr output, s1) \<Rightarrow> (Ret (), writeDataResponse (Acl output) s1))))"

definition setBucketAclHandler ::
  "'w extern \<Rightarrow> Console \<Rightarrow> request \<Rightarrow> 'w hstate \<Rightarrow> unit go \<times> 'w hstate" where
  "setBucketAclHandler x c r s =
     (let failedResponseInfo = ''set bucket acl failed!!!'' in
      case prepareHandler x r [''bucketName''] of
        Inl err \<Rightarrow> (Ret (), writeErrorResponse failedResponseInfo (logErrorf ''%s(): %s'' s))
      | Inr (s3Client, req) \<Rightarrow>
          (case assertString (map_of req ''bucketName'') of
             Panic p \<Rightarrow> (Panic p, s)
           | Ret bucketName \<Rightarrow>
               (let input = PutBucketAclInput0\<lparr>pbBucket := Some bucketName\<rparr> in
                case extcall (S3Call s3Client (PutBucketAcl input))
                       (sdk_PutBucketAcl x s3Client input) s of
                  (Some err, s1) \<Rightarrow>
                    (Ret (), writeErrorResponse failedResponseInfo
                       (logErrorf ''%s(): set bucket acl failed cause by [%v]'' s1))
                | (None, s1) \<Rightarrow> (Ret (), writeSuccessResponse s1))))"

definition getObjectAclHandler ::
  "'w extern \<Rightarrow> Console \<Rightarrow> request \<Rightarrow> 'w hstate \<Rightarrow> unit go \<times> 'w hstate" where
  "getObjectAclHandler x c r s =
     (let failedResponseInfo = ''get object acl failed!!!'' in
      case prepareHandler x r [''bucketName'', ''objectName''] of
        Inl err \<Rightarrow> (Ret (), writeErrorResponse failedResponseInfo (logErrorf ''%s(): %s'' s))
      | Inr (s3Client, req) \<Rightarrow>
          (case assertString (map_of req ''bucketName'') of
             Panic p \<Rightarrow> (Panic p, s)
           | Ret bucketName \<Rightarrow>
          (case assertString (map_of req ''objectName'') of
             Panic p \<Rightarrow> (Panic p, s)
           | Ret objectName \<Rightarrow>
               (case extcall (S3Call s3Client (GetObjectAcl bucketName objectName))
                       (sdk_GetObjectAcl x s3Client bucketName objectName) s of
                  (Inl err, s1) \<Rightarrow>
                    (Ret (), writeErrorResponse failedResponseInfo
                       (logErrorf ''%s(): get object acl failed cause by [%v]'' s1))
                | (Inr output, s1) \<Rightarrow> (Ret (), writeDataResponse (Acl output) s1)))))"

definition setObjectAclHandler ::
  "'w extern \<Rightarrow> Console \<Rightarrow> request \<Rightarrow> 'w hstate \<Rightarrow> unit go \<times> 'w hstate" where
  "setObjectAclHandler x c r s =
     (let failedResponseInfo = ''set object acl failed!!!'' in
      case prepareHandler x r [''bucketName'', ''objectName''] of
        Inl err \<Rightarrow> (Ret (), writeErrorResponse failedResponseInfo (logErrorf ''%s(): %s'' s))
      | Inr (s3Client, req) \<Rightarrow>
          (case assertString (map_of req ''bucketName'') of
             Panic p \<Rightarrow> (Panic p, s)
           | Ret bucketName \<Rightarrow>
          (case assertString (map_of req ''objectName'') of
             Panic p \<Rightarrow> (Panic p, s)
           | Ret objectName \<Rightarrow>
               (let input = PutObjectAclInput0\<lparr>poBucket := Some bucketName, poKey := Some objectName\<rparr> in
                case extcall (S3Call s3Client (PutObjectAcl input))
                       (sdk_PutObjectAcl x s3Client input) s of
                  (Some err, s1) \<Rightarrow>
                    (Ret (), writeErrorResponse failedResponseInfo
                       (logErrorf ''%s(): set object acl failed cause by [%v]'' s1))
                | (None, s1) \<Rightarrow> (Ret (), writeSuccessResponse s1)))))"

subsection \<open>Runs and observations\<close>

text \<open>A request is handled from a fresh response writer and an empty trace.\<close>

definition rw0 :: ResponseWriter where
  "rw0 = \<lparr>handlerHeader = [], wroteHeader = False, status = 0, sentHeader = [], body = []\<rparr>"

definition fresh :: "'w \<Rightarrow> 'w hstate" where
  "fresh w = \<lparr>world = w, trace = [], rw = rw0\<rparr>"

text \<open>The calls to the object store in a trace, in order, each with the client
  configuration it was issued under.\<close>

fun s3calls :: "event list \<Rightarrow> (aws_config \<times> s3_call) list" where
  "s3calls [] = []"
| "s3calls (S3Call cfg k # es) = (cfg, k) # s3calls es"
| "s3calls (e # es) = s3calls es"

text \<open>The envelopes written to a response, in order.\<close>

fun envelopes :: "chunk list \<Rightarrow> envelope list" where
  "envelopes [] = []"
| "envelopes (Envelope e # cs) = e # envelopes cs"
| "envelopes (Bytes b # cs) = envelopes cs"

text \<open>A request lacks a required field when some name of \<open>args\<close> is not a key of the
  decoded body.\<close>

definition missingParam :: "'w extern \<Rightarrow> request \<Rightarrow> string list \<Rightarrow> bool" where
  "missingParam x r args = (\<exists>a\<in>set args. map_of (decodeBody x r) a = None)"

text \<open>A run that returned, wrote exactly one envelope, the error envelope with the given
  message, and issued no call to the object store.\<close>

definition errorOnly :: "string \<Rightarrow> unit go \<times> 'w hstate \<Rightarrow> bool" where
  "errorOnly msg out =
     (fst out = Ret () \<and> body (rw (snd out)) = [Envelope (Failure msg)]
      \<and> s3calls (trace (snd out)) = [])"

subsection \<open>A sample deployment\<close>

text \<open>
  A concrete environment on which the handlers can be evaluated: the world counts the
  external calls made, the auth node knows the user alice, the decoder knows a few
  request bodies (one of them decodes with a type error after the map is filled, any
  other text is not JSON), the package's default is 1000 keys, and every store call succeeds.
  A failing store is obtained by updating one field.
\<close>

definition bodyBucket :: string where
  "bodyBucket = ''{\"bucketName\":\"docs\"}''"

definition bodyBucketAcl :: string where
  "bodyBucketAcl = ''{\"bucketName\":\"docs\",\"acl\":\"public-read\"}''"

definition bodyObject :: string where
  "bodyObject = ''{\"bucketName\":\"docs\",\"objectName\":\"a.txt\"}''"

definition bodyObjectAcl :: string where
  "bodyObjectAcl = ''{\"bucketName\":\"docs\",\"objectName\":\"a.txt\",\"acl\":\"private\"}''"

definition bodyList :: string where
  "bodyList = ''{\"bucketName\":\"docs\",\"prefix\":\"\",\"startAfter\":\"\",\"maxKeys\":\"abc\"}''"

definition bodyOverflow :: string where
  "bodyOverflow = ''{\"bucketName\":\"docs\",\"n\":1e999}''"

definition demoUnmarshal :: "string \<Rightarrow> (string \<times> jvalue) list \<times> error option" where
  "demoUnmarshal b =
     (if b = bodyBucket then ([(''bucketName'', JString ''docs'')], None)
      else if b = bodyBucketAcl then
        ([(''bucketName'', JString ''docs''), (''acl'', JString ''public-read'')], None)
      else if b = bodyObject then
        ([(''bucketName'', JString ''docs''), (''objectName'', JString ''a.txt'')], None)
      else if b = bodyObjectAcl then
        ([(''bucketName'', JString ''docs''), (''objectName'', JString ''a.txt''),
          (''acl'', JString ''private'')], None)
      else if b = bodyList then
        ([(''bucketName'', JString ''docs''), (''prefix'', JString []),
          (''startAfter'', JString []), (''maxKeys'', JString ''abc'')], None)
      else if b = bodyOverflow then
        ([(''bucketName'', JString ''docs''), (''n'', JNull)],
         Some ''json: cannot unmarshal number 1e999 into Go value of type float64'')
      else if b = ''{}'' then ([], None)
      else ([], Some ''invalid character''))"

definition demoExtern :: "nat extern" where
  "demoExtern =
     \<lparr>json_Unmarshal = demoUnmarshal,
      NewSession = (\<lambda>cfg. None),
      AdminGetCaps = (\<lambda>cid ckey u w.
         (if u = ''alice'' then Inr (''AKalice'', ''SKalice'') else Inl ''user not found'', Suc w)),
      S3ListObjectsMaxKeys = ''1000'',
      sdk_ListBuckets = (\<lambda>cfg w. (Inr [s3_Bucket (Some ''docs'') (Some 1546300800)], Suc w)),
      sdk_CreateBucket = (\<lambda>cfg b w. (None, Suc w)),
      sdk_DeleteBucket = (\<lambda>cfg b w. (None, Suc w)),
      sdk_WaitUntilBucketNotExists = (\<lambda>cfg b w. (None, Suc w)),
      sdk_PutObject = (\<lambda>cfg b k d w. (None, Suc w)),
      sdk_HeadObject = (\<lambda>cfg b k w. (Inr (Some 5), Suc w)),
      sdk_GetObject = (\<lambda>cfg b k w. ((Some ''hello'', None), Suc w)),
      sdk_DeleteObject = (\<lambda>cfg b k w. (None, Suc w)),
      sdk_ListObjectsV2 = (\<lambda>cfg i w.
         (Inr \<lparr>outCommonPrefixes = [], outContents = [], outIsTruncated = Some False,
               outKeyCount = Some 0, outStartAfter = None\<rparr>, Suc w)),
      sdk_GetBucketAcl = (\<lambda>cfg b w. (Inr (AclOutput (Some ''alice'') []), Suc w)),
      sdk_PutBucketAcl = (\<lambda>cfg i w. (None, Suc w)),
      sdk_GetObjectAcl = (\<lambda>cfg b k w. (Inr (AclOutput (Some ''alice'') []), Suc w)),
      sdk_PutObjectAcl = (\<lambda>cfg i w. (None, Suc w))\<rparr>"

definition demoConsole :: Console where
  "demoConsole = \<lparr>consoleId = ''console'', consoleKey = ''secret'', s3Region = ''cfs_default'',
                   s3Endpoint = ''http://127.0.0.1:32793''\<rparr>"

definition demoRequest :: "string \<Rightarrow> string \<Rightarrow> request" where
  "demoRequest user b =
     \<lparr>bodyData = b, bodyErr = None, query = [(''userId'', [user])],
      header = [(''Content-Type'', [''application/json''])], multipartForm = None\<rparr>"

text \<open>The client built for alice from the auth node's keys, and the client that
  \<open>prepareHandler\<close> builds from its fixed credentials.\<close>

definition aliceClient :: aws_config where
  "aliceClient =
     \<lparr>Region = ''cfs_default'', Endpoint = ''http://127.0.0.1:32793'',
      AccessKeyID = ''AKalice'', SecretAccessKey = ''SKalice'', SessionToken = ''23'',
      DisableSSL = None, S3ForcePathStyle = None\<rparr>"

definition fixedClient :: aws_config where
  "fixedClient =
     \<lparr>Region = ''cfs_default'', Endpoint = ''http://127.0.0.1:32793'',
      AccessKeyID = ''YqgyNwuMUielu8pN'', SecretAccessKey = ''TDp9RplFfEG9VwGHvtKIV7357aPM3OvZ'',
      SessionToken = [], DisableSSL = Some False, S3ForcePathStyle = Some True\<rparr>"

text \<open>Deployments whose store fails the metadata probe, or the wait for a deleted
  bucket to disappear.\<close>

definition demoProbeFails :: "nat extern" where
  "demoProbeFails = demoExtern\<lparr>sdk_HeadObject := (\<lambda>cfg b k w. (Inl ''NotFound'', Suc w))\<rparr>"

definition demoWaitFails :: "nat extern" where
  "demoWaitFails =
     demoExtern\<lparr>sdk_WaitUntilBucketNotExists := (\<lambda>cfg b w. (Some ''ResourceNotReady'', Suc w))\<rparr>"

text \<open>A request whose body is not JSON, one whose body holds a number outside float64,
  and one whose body stream fails while it is read.\<close>

definition demoMalformed :: request where
  "demoMalformed = demoRequest ''alice'' ''{oops''"

definition demoOverflow :: request where
  "demoOverflow = demoRequest ''alice'' bodyOverflow"

definition demoUnreadable :: request where
  "demoUnreadable = (demoRequest ''alice'' bodyBucket)\<lparr>bodyErr := Some ''unexpected EOF''\<rparr>"

section \<open>Properties\<close>

subsection \<open>Credential resolution leaves the store and the response alone\<close>

lemmas state_defs = logErrorf_def logInfof_def extcall_def writeErrorResponse_def
  writeSuccessResponse_def writeDataResponse_def

lemma s3calls_append: "s3calls (a @ b) = s3calls a @ s3calls b"
  by (induction a rule: s3calls.induct) simp_all

lemma getS3Keys_frame:
  "getS3Keys x c r s = (res, s1) \<Longrightarrow> s3calls (trace s1) = s3calls (trace s) \<and> rw s1 = rw s"
  by (auto simp: getS3Keys_def state_defs s3calls_append Let_def
           split: list.splits option.splits if_splits prod.splits sum.splits)

lemma getS3Client_frame:
  "getS3Client x c r s = (res, s1) \<Longrightarrow> s3calls (trace s1) = s3calls (trace s) \<and> rw s1 = rw s"
  by (auto simp: getS3Client_def state_defs s3calls_append Let_def
           dest!: getS3Keys_frame
           split: list.splits option.splits if_splits prod.splits sum.splits go.splits)

lemma getS3Keys_auth_fails:
  assumes "map_of (query r) ''userId'' = Some (u # us)" and "u \<noteq> []"
    and "fst (AdminGetCaps x (consoleId c) (consoleKey c) u (world s)) = Inl e"
  shows "\<exists>s1. getS3Keys x c r s = (Ret (Inl e), s1)"
  using assms by (auto simp: getS3Keys_def state_defs split: prod.splits sum.splits)

lemma getS3Client_auth_fails:
  assumes "map_of (query r) ''userId'' = Some (u # us)" and "u \<noteq> []"
    and "fst (AdminGetCaps x (consoleId c) (consoleKey c) u (world s)) = Inl e"
  shows "\<exists>s1. getS3Client x c r s = (Ret (Inl e), s1) \<and> s3calls (trace s1) = s3calls (trace s)"
proof -
  from getS3Keys_auth_fails[OF assms] obtain s0 where k: "getS3Keys x c r s = (Ret (Inl e), s0)"
    by blast
  then have "getS3Client x c r s
      = (Ret (Inl e), logErrorf ''getS3Client : get user info failed cause : %s'' s0)"
    by (simp add: getS3Client_def)
  moreover from this getS3Client_frame have
    "s3calls (trace (logErrorf ''getS3Client : get user info failed cause : %s'' s0)) = s3calls (trace s)"
    by blast
  ultimately show ?thesis by blast
qed


subsection \<open>A failed auth lookup\<close>

lemma authfail_getBucketList:
  assumes "map_of (query r) ''userId'' = Some (u # us)" and "u \<noteq> []"
    and "fst (AdminGetCaps x (consoleId c) (consoleKey c) u (world s)) = Inl e"
  shows "s3calls (trace (snd (getBucketListHandler x c r s))) = s3calls (trace s)"
proof -
  from getS3Client_auth_fails[OF assms] obtain s1 where
    "getS3Client x c r s = (Ret (Inl e), s1)" "s3calls (trace s1) = s3calls (trace s)" by blast
  then show ?thesis
    by (simp add: getBucketListHandler_def state_defs s3calls_append)
qed

lemma authfail_createBucket:
  assumes "map_of (query r) ''userId'' = Some (u # us)" and "u \<noteq> []"
    and "fst (AdminGetCaps x (consoleId c) (consoleKey c) u (world s)) = Inl e"
  shows "s3calls (trace (snd (createBucketHandler x c r s))) = s3calls (trace s)"
proof -
  from getS3Client_auth_fails[OF assms] obtain s1 where
    "getS3Client x c r s = (Ret (Inl e), s1)" "s3calls (trace s1) = s3calls (trace s)" by blast
  then show ?thesis
    by (simp add: createBucketHandler_def state_defs s3calls_append Let_def
             split: option.splits go.splits)
qed

lemma authfail_deleteBucket:
  assumes "map_of (query r) ''userId'' = Some (u # us)" and "u \<noteq> []"
    and "fst (AdminGetCaps x (consoleId c) (consoleKey c) u (world s)) = Inl e"
  shows "s3calls (trace (snd (deleteBucketHandler x c r s))) = s3calls (trace s)"
proof -
  from getS3Client_auth_fails[OF assms] obtain s1 where
    "getS3Client x c r s = (Ret (Inl e), s1)" "s3calls (trace s1) = s3calls (trace s)" by blast
  then show ?thesis
    by (simp add: deleteBucketHandler_def state_defs s3calls_append Let_def
             split: option.splits go.splits)
qed

lemma authfail_putObject:
  assumes "map_of (query r) ''userId'' = Some (u # us)" and "u \<noteq> []"
    and "fst (AdminGetCaps x (consoleId c) (consoleKey c) u (world s)) = Inl e"
  shows "s3calls (trace (snd (putObjectHandler x c r s))) = s3calls (trace s)"
proof -
  let ?s0 = "s\<lparr>trace := trace s @ [Stdout]\<rparr>"
  have "fst (AdminGetCaps x (consoleId c) (consoleKey c) u (world ?s0)) = Inl e"
    using assms(3) by simp
  from getS3Client_auth_fails[OF assms(1,2) this] obtain s1 where
    "getS3Client x c r ?s0 = (Ret (Inl e), s1)" "s3calls (trace s1) = s3calls (trace ?s0)" by blast
  then show ?thesis
    by (simp add: putObjectHandler_def state_defs s3calls_append Let_def
             split: option.splits go.splits sum.splits)
qed

lemma authfail_getObject:
  assumes "map_of (query r) ''userId'' = Some (u # us)" and "u \<noteq> []"
    and "fst (AdminGetCaps x (consoleId c) (consoleKey c) u (world s)) = Inl e"
  shows "s3calls (trace (snd (getObjectHandler x c r s))) = s3calls (trace s)"
proof -
  from getS3Client_auth_fails[OF assms] obtain s1 where
    "getS3Client x c r s = (Ret (Inl e), s1)" "s3calls (trace s1) = s3calls (trace s)" by blast
  then show ?thesis
    by (simp add: getObjectHandler_def state_defs s3calls_append Let_def
             split: option.splits go.splits)
qed

lemma authfail_deleteObject:
  assumes "map_of (query r) ''userId'' = Some (u # us)" and "u \<noteq> []"
    and "fst (AdminGetCaps x (consoleId c) (consoleKey c) u (world s)) = Inl e"
  shows "s3calls (trace (snd (deleteObjectHandler x c r s))) = s3calls (trace s)"
proof -
  from getS3Client_auth_fails[OF assms] obtain s1 where
    "getS3Client x c r s = (Ret (Inl e), s1)" "s3calls (trace s1) = s3calls (trace s)" by blast
  then show ?thesis
    by (simp add: deleteObjectHandler_def state_defs s3calls_append Let_def
             split: option.splits go.splits)
qed

lemma authfail_getObjectList:
  assumes "map_of (query r) ''userId'' = Some (u # us)" and "u \<noteq> []"
    and "fst (AdminGetCaps x (consoleId c) (consoleKey c) u (world s)) = Inl e"
  shows "s3calls (trace (snd (getObjectListHandler x c r s))) = s3calls (trace s)"
proof -
  from getS3Client_auth_fails[OF assms] obtain s1 where
    "getS3Client x c r s = (Ret (Inl e), s1)" "s3calls (trace s1) = s3calls (trace s)" by blast
  then show ?thesis
    by (simp add: getObjectListHandler_def state_defs s3calls_append Let_def
             split: option.splits go.splits)
qed

text \<open>
  C7. In each of the seven handlers that resolve per-user credentials (list, create and
  delete bucket; put, get and delete object; list objects), when the request names a
  user and the auth node's lookup for that user fails, the run issues no call to the
  object store, under any credentials.
\<close>

theorem auth_failure_prevents_store_calls:
  assumes "map_of (query r) ''userId'' = Some (u # us)" and "u \<noteq> []"
    and "fst (AdminGetCaps x (consoleId c) (consoleKey c) u w) = Inl e"
  shows "s3calls (trace (snd (getBucketListHandler x c r (fresh w)))) = []
       \<and> s3calls (trace (snd (createBucketHandler x c r (fresh w)))) = []
       \<and> s3calls (trace (snd (deleteBucketHandler x c r (fresh w)))) = []
       \<and> s3calls (trace (snd (putObjectHandler x c r (fresh w)))) = []
       \<and> s3calls (trace (snd (getObjectHandler x c r (fresh w)))) = []
       \<and> s3calls (trace (snd (deleteObjectHandler x c r (fresh w)))) = []
       \<and> s3calls (trace (snd (getObjectListHandler x c r (fresh w)))) = []"
proof -
  have w: "fst (AdminGetCaps x (consoleId c) (consoleKey c) u (world (fresh w))) = Inl e"
    using assms(3) by (simp add: fresh_def)
  have t: "s3calls (trace (fresh w)) = []" by (simp add: fresh_def)
  note a = assms(1,2) w
  show ?thesis
    using authfail_getBucketList[OF a] authfail_createBucket[OF a] authfail_deleteBucket[OF a]
      authfail_putObject[OF a] authfail_getObject[OF a] authfail_deleteObject[OF a]
      authfail_getObjectList[OF a]
    by (simp only: t simp_thms)
qed

theorem auth_failure_prevents_store_calls_witness:
  "map_of (query (demoRequest ''bob'' bodyBucket)) ''userId'' = Some (''bob'' # [])
   \<and> ''bob'' \<noteq> []
   \<and> fst (AdminGetCaps demoExtern (consoleId demoConsole) (consoleKey demoConsole) ''bob'' 0)
       = Inl ''user not found''
   \<and> s3calls (trace (snd (createBucketHandler demoExtern demoConsole
         (demoRequest ''bob'' bodyBucket) (fresh 0)))) = []
   \<and> envelopes (body (rw (snd (createBucketHandler demoExtern demoConsole
         (demoRequest ''bob'' bodyBucket) (fresh 0)))))
       = [Failure ''Get s3 client failed'']"
proof -
  have h1: "map_of (query (demoRequest ''bob'' bodyBucket)) ''userId''
      = Some (''bob'' # [])"
    by (simp add: demoRequest_def)
  have h2: "''bob'' \<noteq> []" by simp
  have h3: "fst (AdminGetCaps demoExtern (consoleId demoConsole) (consoleKey demoConsole) ''bob'' 0)
      = Inl ''user not found''"
    by (simp add: demoExtern_def)
  have e: "envelopes (body (rw (snd (createBucketHandler demoExtern demoConsole
         (demoRequest ''bob'' bodyBucket) (fresh 0)))))
       = [Failure ''Get s3 client failed'']"
    by (simp add: createBucketHandler_def decodeBody_def demoRequest_def demoExtern_def
        demoUnmarshal_def bodyBucket_def demoConsole_def getS3Client_def getS3Keys_def state_defs fresh_def
        rw0_def rw_Write_def rw_WriteHeader_def)
  from auth_failure_prevents_store_calls[OF h1 h2 h3] h1 h2 h3 e show ?thesis by blast
qed

lemmas rw_defs = rw_Write_def rw_WriteHeader_def rw_HeaderSet_def io_Copy_def rw0_def
lemmas demo_defs = demoExtern_def demoConsole_def demoRequest_def demoUnmarshal_def
  bodyBucket_def bodyBucketAcl_def bodyObject_def bodyObjectAcl_def bodyList_def
  aliceClient_def fixedClient_def demoProbeFails_def demoWaitFails_def
  demoMalformed_def demoUnreadable_def bodyOverflow_def demoOverflow_def

subsection \<open>The metadata probe of get-object\<close>

text \<open>
  C3. When a get-object request has been decoded, its client built, and the metadata
  probe (HeadObject) returns an error, the handler returns with the response writer
  untouched (no status, no header, no body, no envelope), and the only call it has issued
  to the object store is the probe: GetObject is not called.
\<close>

theorem probe_failure_aborts_silently:
  assumes "bodyErr r = None"
    and "map_of (decodeBody x r) ''bucketName'' = Some (JString b)"
    and "map_of (decodeBody x r) ''objectName'' = Some (JString k)"
    and "getS3Client x c r (fresh w) = (Ret (Inr cl), s1)"
    and "fst (sdk_HeadObject x cl b k (world s1)) = Inl e"
  shows "fst (getObjectHandler x c r (fresh w)) = Ret ()
       \<and> rw (snd (getObjectHandler x c r (fresh w))) = rw0
       \<and> s3calls (trace (snd (getObjectHandler x c r (fresh w)))) = [(cl, HeadObject b k)]"
proof -
  from getS3Client_frame[OF assms(4)]
  have f: "s3calls (trace s1) = []" "rw s1 = rw0" by (simp_all add: fresh_def)
  obtain w' where h: "sdk_HeadObject x cl b k (world s1) = (Inl e, w')"
    using assms(5) by (cases "sdk_HeadObject x cl b k (world s1)") simp
  show ?thesis
    using assms(1-4) f h
    by (simp add: getObjectHandler_def state_defs s3calls_append Let_def)
qed

theorem probe_failure_aborts_silently_witness:
  "bodyErr (demoRequest ''alice'' bodyObject) = None
   \<and> map_of (decodeBody demoProbeFails (demoRequest ''alice'' bodyObject)) ''bucketName''
       = Some (JString ''docs'')
   \<and> map_of (decodeBody demoProbeFails (demoRequest ''alice'' bodyObject)) ''objectName''
       = Some (JString ''a.txt'')
   \<and> getS3Client demoProbeFails demoConsole (demoRequest ''alice'' bodyObject) (fresh 0)
       = (Ret (Inr aliceClient),
          \<lparr>world = 1, trace = [AuthCall ''console'' ''secret'' ''alice''], rw = rw0\<rparr>)
   \<and> fst (sdk_HeadObject demoProbeFails aliceClient ''docs'' ''a.txt''
         (world \<lparr>world = 1, trace = [AuthCall ''console'' ''secret'' ''alice''], rw = rw0\<rparr>))
       = Inl ''NotFound''
   \<and> fst (getObjectHandler demoProbeFails demoConsole (demoRequest ''alice'' bodyObject) (fresh 0))
       = Ret ()
   \<and> rw (snd (getObjectHandler demoProbeFails demoConsole (demoRequest ''alice'' bodyObject)
         (fresh 0))) = rw0
   \<and> s3calls (trace (snd (getObjectHandler demoProbeFails demoConsole
         (demoRequest ''alice'' bodyObject) (fresh 0)))) = [(aliceClient, HeadObject ''docs'' ''a.txt'')]"
proof -
  let ?r = "demoRequest ''alice'' bodyObject"
  let ?s1 = "\<lparr>world = 1, trace = [AuthCall ''console'' ''secret'' ''alice''], rw = rw0\<rparr>"
  have h1: "bodyErr ?r = None" by (simp add: demo_defs)
  have h2: "map_of (decodeBody demoProbeFails ?r) ''bucketName'' = Some (JString ''docs'')"
    by (simp add: demo_defs decodeBody_def)
  have h3: "map_of (decodeBody demoProbeFails ?r) ''objectName'' = Some (JString ''a.txt'')"
    by (simp add: demo_defs decodeBody_def)
  have h4: "getS3Client demoProbeFails demoConsole ?r (fresh 0) = (Ret (Inr aliceClient), ?s1)"
    by (simp add: demo_defs getS3Client_def getS3Keys_def state_defs fresh_def)
  have h5: "fst (sdk_HeadObject demoProbeFails aliceClient ''docs'' ''a.txt'' (world ?s1))
      = Inl ''NotFound''"
    by (simp add: demo_defs)
  from probe_failure_aborts_silently[OF h1 h2 h3 h4 h5] h1 h2 h3 h4 h5 show ?thesis
    by blast
qed

subsection \<open>Missing required fields\<close>

lemma checkArgs_missing:
  "a \<in> set args \<Longrightarrow> map_of req a = None \<Longrightarrow>
   \<exists>a'\<in>set args. map_of req a' = None \<and> checkArgs req args = Some (''can't find param ['' @ a' @ '']'')"
  by (induction args) (auto split: option.splits)

lemma prepareHandler_missing:
  assumes "missingParam x r args"
  shows "\<exists>e. prepareHandler x r args = Inl e"
    and "bodyErr r = None \<Longrightarrow>
         \<exists>a\<in>set args. map_of (decodeBody x r) a = None
            \<and> prepareHandler x r args = Inl (''can't find param ['' @ a @ '']'')"
proof -
  from assms obtain a where a: "a \<in> set args" "map_of (decodeBody x r) a = None"
    by (auto simp: missingParam_def)
  from checkArgs_missing[OF a] obtain a' where
    a': "a' \<in> set args" "map_of (decodeBody x r) a' = None"
        "checkArgs (decodeBody x r) args = Some (''can't find param ['' @ a' @ '']'')"
    by blast
  show "\<exists>e. prepareHandler x r args = Inl e"
    using a'(3) by (simp add: prepareHandler_def Let_def split: option.splits)
  show "\<exists>a\<in>set args. map_of (decodeBody x r) a = None
            \<and> prepareHandler x r args = Inl (''can't find param ['' @ a @ '']'')"
    if "bodyErr r = None"
    using a' that by (auto simp: prepareHandler_def Let_def)
qed

lemma errorOnly_fresh:
  "errorOnly msg (Ret (), writeErrorResponse msg (logErrorf fmt (fresh w)))"
  by (simp add: errorOnly_def state_defs fresh_def rw_defs)

text \<open>
  C6. When the decoded body of a request lacks one of the fields a handler requires, each
  of the four ACL handlers and the create-folder handler returns after writing exactly
  one envelope, the error envelope with the handler's failure message, and issues no
  call to the object store. When the body was read without error, the error that
  \<open>prepareHandler\<close> returns (and the handler logs) names a missing parameter.
\<close>

theorem missing_field_yields_error_envelope:
  "(missingParam x r [''bucketName''] \<longrightarrow>
      errorOnly ''get bucket acl failed!!!'' (getBucketAclHandler x c r (fresh w))
    \<and> errorOnly ''set bucket acl failed!!!'' (setBucketAclHandler x c r (fresh w)))
   \<and> (missingParam x r [''bucketName'', ''objectName''] \<longrightarrow>
      errorOnly ''get object acl failed!!!'' (getObjectAclHandler x c r (fresh w))
    \<and> errorOnly ''set object acl failed!!!'' (setObjectAclHandler x c r (fresh w)))
   \<and> (missingParam x r [''bucketName'', ''folderName'', ''parentName''] \<longrightarrow>
      errorOnly ''create folder failed!!!'' (createFolderHandler x c r (fresh w)))
   \<and> (bodyErr r = None \<and> missingParam x r args \<longrightarrow>
      (\<exists>a\<in>set args. map_of (decodeBody x r) a = None
         \<and> prepareHandler x r args = Inl (''can't find param ['' @ a @ '']'')))"
proof (intro conjI impI)
  assume m: "missingParam x r [''bucketName'']"
  from prepareHandler_missing(1)[OF m] obtain e where
    "prepareHandler x r [''bucketName''] = Inl e" by blast
  then show "errorOnly ''get bucket acl failed!!!'' (getBucketAclHandler x c r (fresh w))"
    and "errorOnly ''set bucket acl failed!!!'' (setBucketAclHandler x c r (fresh w))"
    by (simp_all add: getBucketAclHandler_def setBucketAclHandler_def errorOnly_fresh)
next
  assume m: "missingParam x r [''bucketName'', ''objectName'']"
  from prepareHandler_missing(1)[OF m] obtain e where
    "prepareHandler x r [''bucketName'', ''objectName''] = Inl e" by blast
  then show "errorOnly ''get object acl failed!!!'' (getObjectAclHandler x c r (fresh w))"
    and "errorOnly ''set object acl failed!!!'' (setObjectAclHandler x c r (fresh w))"
    by (simp_all add: getObjectAclHandler_def setObjectAclHandler_def errorOnly_fresh)
next
  assume m: "missingParam x r [''bucketName'', ''folderName'', ''parentName'']"
  from prepareHandler_missing(1)[OF m] obtain e where
    "prepareHandler x r [''bucketName'', ''folderName'', ''parentName''] = Inl e" by blast
  then show "errorOnly ''create folder failed!!!'' (createFolderHandler x c r (fresh w))"
    by (simp add: createFolderHandler_def errorOnly_fresh)
next
  assume "bodyErr r = None \<and> missingParam x r args"
  then show "\<exists>a\<in>set args. map_of (decodeBody x r) a = None
         \<and> prepareHandler x r args = Inl (''can't find param ['' @ a @ '']'')"
    using prepareHandler_missing(2) by blast
qed

theorem missing_field_yields_error_envelope_witness:
  "missingParam demoExtern (demoRequest ''alice'' ''{}'') [''bucketName'']
   \<and> missingParam demoExtern (demoRequest ''alice'' ''{}'') [''bucketName'', ''objectName'']
   \<and> missingParam demoExtern (demoRequest ''alice'' ''{}'')
        [''bucketName'', ''folderName'', ''parentName'']
   \<and> bodyErr (demoRequest ''alice'' ''{}'') = None
   \<and> errorOnly ''get bucket acl failed!!!''
        (getBucketAclHandler demoExtern demoConsole (demoRequest ''alice'' ''{}'') (fresh 0))
   \<and> errorOnly ''set bucket acl failed!!!''
        (setBucketAclHandler demoExtern demoConsole (demoRequest ''alice'' ''{}'') (fresh 0))
   \<and> errorOnly ''get object acl failed!!!''
        (getObjectAclHandler demoExtern demoConsole (demoRequest ''alice'' ''{}'') (fresh 0))
   \<and> errorOnly ''set object acl failed!!!''
        (setObjectAclHandler demoExtern demoConsole (demoRequest ''alice'' ''{}'') (fresh 0))
   \<and> errorOnly ''create folder failed!!!''
        (createFolderHandler demoExtern demoConsole (demoRequest ''alice'' ''{}'') (fresh 0))
   \<and> (\<exists>a\<in>set [''bucketName'', ''objectName''].
         map_of (decodeBody demoExtern (demoRequest ''alice'' ''{}'')) a = None
         \<and> prepareHandler demoExtern (demoRequest ''alice'' ''{}'') [''bucketName'', ''objectName'']
             = Inl (''can't find param ['' @ a @ '']''))"
proof -
  let ?r = "demoRequest ''alice'' ''{}''"
  have d: "decodeBody demoExtern ?r = []"
    by (simp add: decodeBody_def demo_defs)
  have h1: "missingParam demoExtern ?r [''bucketName'']"
    and h2: "missingParam demoExtern ?r [''bucketName'', ''objectName'']"
    and h3: "missingParam demoExtern ?r [''bucketName'', ''folderName'', ''parentName'']"
    by (auto simp add: missingParam_def d)
  have h4: "bodyErr ?r = None" by (simp add: demoRequest_def)
  from missing_field_yields_error_envelope
         [of demoExtern ?r demoConsole 0 "[''bucketName'', ''objectName'']"]
       h1 h2 h3 h4
  show ?thesis by blast
qed

subsection \<open>The ACL-setting handlers\<close>

lemma prepareHandler_ok:
  "bodyErr r = None \<Longrightarrow> checkArgs (decodeBody x r) args = None \<Longrightarrow>
   prepareHandler x r args =
     (case NewSession x fixedClient of
        Some err \<Rightarrow> Inl (''create s3 client session failed cause by ['' @ err @ '']'')
      | None \<Rightarrow> Inr (fixedClient, decodeBody x r))"
  by (simp add: prepareHandler_def fixedClient_def Let_def split: option.splits)

lemma setBucketAcl_present:
  assumes "bodyErr r = None" and "map_of (decodeBody x r) ''bucketName'' = Some v"
  shows "setBucketAclHandler x c r s =
     (case NewSession x fixedClient of
        Some err \<Rightarrow> (Ret (), writeErrorResponse ''set bucket acl failed!!!'' (logErrorf ''%s(): %s'' s))
      | None \<Rightarrow>
         (case assertString (Some v) of
            Panic p \<Rightarrow> (Panic p, s)
          | Ret bucketName \<Rightarrow>
              (case extcall (S3Call fixedClient (PutBucketAcl (PutBucketAclInput0\<lparr>pbBucket := Some bucketName\<rparr>)))
                      (sdk_PutBucketAcl x fixedClient (PutBucketAclInput0\<lparr>pbBucket := Some bucketName\<rparr>)) s of
                 (Some err, s1) \<Rightarrow>
                   (Ret (), writeErrorResponse ''set bucket acl failed!!!''
                      (logErrorf ''%s(): set bucket acl failed cause by [%v]'' s1))
               | (None, s1) \<Rightarrow> (Ret (), writeSuccessResponse s1))))"
proof -
  have "checkArgs (decodeBody x r) [''bucketName''] = None"
    using assms(2) by simp
  from prepareHandler_ok[OF assms(1) this] assms(2) show ?thesis
    by (simp add: setBucketAclHandler_def Let_def split: option.splits go.splits)
qed

lemma setObjectAcl_present:
  assumes "bodyErr r = None" and "map_of (decodeBody x r) ''bucketName'' = Some v"
    and "map_of (decodeBody x r) ''objectName'' = Some v'"
  shows "setObjectAclHandler x c r s =
     (case NewSession x fixedClient of
        Some err \<Rightarrow> (Ret (), writeErrorResponse ''set object acl failed!!!'' (logErrorf ''%s(): %s'' s))
      | None \<Rightarrow>
         (case assertString (Some v) of
            Panic p \<Rightarrow> (Panic p, s)
          | Ret bucketName \<Rightarrow>
         (case assertString (Some v') of
            Panic p \<Rightarrow> (Panic p, s)
          | Ret objectName \<Rightarrow>
              (case extcall (S3Call fixedClient (PutObjectAcl (PutObjectAclInput0\<lparr>poBucket := Some bucketName, poKey := Some objectName\<rparr>)))
                      (sdk_PutObjectAcl x fixedClient (PutObjectAclInput0\<lparr>poBucket := Some bucketName, poKey := Some objectName\<rparr>)) s of
                 (Some err, s1) \<Rightarrow>
                   (Ret (), writeErrorResponse ''set object acl failed!!!''
                      (logErrorf ''%s(): set object acl failed cause by [%v]'' s1))
               | (None, s1) \<Rightarrow> (Ret (), writeSuccessResponse s1)))))"
proof -
  have "checkArgs (decodeBody x r) [''bucketName'', ''objectName''] = None"
    using assms(2,3) by simp
  from prepareHandler_ok[OF assms(1) this] assms(2,3) show ?thesis
    by (simp add: setObjectAclHandler_def Let_def split: option.splits go.splits)
qed

lemma prepareHandler_Inr:
  "prepareHandler x r args = Inr (cl, req) \<Longrightarrow>
   cl = fixedClient \<and> req = decodeBody x r"
  by (auto simp: prepareHandler_def fixedClient_def Let_def split: option.splits)

lemma assertString_Ret: "assertString v = Ret b \<Longrightarrow> v = Some (JString b)"
  by (cases v rule: assertString.cases) simp_all

lemma setBucketAcl_calls:
  assumes "(cfg, call) \<in> set (s3calls (trace (snd (setBucketAclHandler x c r (fresh w)))))"
  shows "\<exists>b. map_of (decodeBody x r) ''bucketName'' = Some (JString b)
            \<and> cfg = fixedClient
            \<and> call = PutBucketAcl (PutBucketAclInput0\<lparr>pbBucket := Some b\<rparr>)"
  using assms
  by (auto simp: setBucketAclHandler_def state_defs s3calls_append Let_def fresh_def
           dest!: prepareHandler_Inr assertString_Ret
           split: sum.splits go.splits prod.splits option.splits)

lemma setObjectAcl_calls:
  assumes "(cfg, call) \<in> set (s3calls (trace (snd (setObjectAclHandler x c r (fresh w)))))"
  shows "\<exists>b k. map_of (decodeBody x r) ''bucketName'' = Some (JString b)
            \<and> map_of (decodeBody x r) ''objectName'' = Some (JString k)
            \<and> cfg = fixedClient
            \<and> call = PutObjectAcl (PutObjectAclInput0\<lparr>poBucket := Some b, poKey := Some k\<rparr>)"
  using assms
  by (auto simp: setObjectAclHandler_def state_defs s3calls_append Let_def fresh_def
           dest!: prepareHandler_Inr assertString_Ret
           split: sum.splits go.splits prod.splits option.splits)

text \<open>
  C9. The store call of set-bucket-ACL and of set-object-ACL is determined by the
  request's bucketName (and objectName) alone: two requests whose bodies were read and
  agree on these fields issue the same store calls, whatever else their bodies hold; and
  every call the two handlers issue is a PutBucketAcl (PutObjectAcl) whose input has the
  bucket (and key) set from the request and every ACL-bearing field left unset.
\<close>

theorem set_acl_call_from_names_only:
  "(bodyErr r1 = None \<and> bodyErr r2 = None
      \<and> map_of (decodeBody x r1) ''bucketName'' = Some vb
      \<and> map_of (decodeBody x r2) ''bucketName'' = Some vb \<longrightarrow>
    s3calls (trace (snd (setBucketAclHandler x c r1 (fresh w))))
      = s3calls (trace (snd (setBucketAclHandler x c r2 (fresh w)))))
   \<and> (bodyErr r1 = None \<and> bodyErr r2 = None
      \<and> map_of (decodeBody x r1) ''bucketName'' = Some vb
      \<and> map_of (decodeBody x r2) ''bucketName'' = Some vb
      \<and> map_of (decodeBody x r1) ''objectName'' = Some vk
      \<and> map_of (decodeBody x r2) ''objectName'' = Some vk \<longrightarrow>
    s3calls (trace (snd (setObjectAclHandler x c r1 (fresh w))))
      = s3calls (trace (snd (setObjectAclHandler x c r2 (fresh w)))))
   \<and> (\<forall>(cfg, call) \<in> set (s3calls (trace (snd (setBucketAclHandler x c r1 (fresh w))))).
        \<exists>b. map_of (decodeBody x r1) ''bucketName'' = Some (JString b)
           \<and> call = PutBucketAcl
                \<lparr>pbACL = None, pbAccessControlPolicy = None, pbBucket = Some b,
                 pbGrantFullControl = None, pbGrantRead = None, pbGrantReadACP = None,
                 pbGrantWrite = None, pbGrantWriteACP = None\<rparr>)
   \<and> (\<forall>(cfg, call) \<in> set (s3calls (trace (snd (setObjectAclHandler x c r1 (fresh w))))).
        \<exists>b k. map_of (decodeBody x r1) ''bucketName'' = Some (JString b)
           \<and> map_of (decodeBody x r1) ''objectName'' = Some (JString k)
           \<and> call = PutObjectAcl
                \<lparr>poACL = None, poAccessControlPolicy = None, poBucket = Some b,
                 poGrantFullControl = None, poGrantRead = None, poGrantReadACP = None,
                 poGrantWrite = None, poGrantWriteACP = None, poKey = Some k\<rparr>)"
proof (intro conjI impI)
  assume "bodyErr r1 = None \<and> bodyErr r2 = None
      \<and> map_of (decodeBody x r1) ''bucketName'' = Some vb
      \<and> map_of (decodeBody x r2) ''bucketName'' = Some vb"
  then show "s3calls (trace (snd (setBucketAclHandler x c r1 (fresh w))))
      = s3calls (trace (snd (setBucketAclHandler x c r2 (fresh w))))"
    by (simp add: setBucketAcl_present)
next
  assume "bodyErr r1 = None \<and> bodyErr r2 = None
      \<and> map_of (decodeBody x r1) ''bucketName'' = Some vb
      \<and> map_of (decodeBody x r2) ''bucketName'' = Some vb
      \<and> map_of (decodeBody x r1) ''objectName'' = Some vk
      \<and> map_of (decodeBody x r2) ''objectName'' = Some vk"
  then show "s3calls (trace (snd (setObjectAclHandler x c r1 (fresh w))))
      = s3calls (trace (snd (setObjectAclHandler x c r2 (fresh w))))"
    by (simp add: setObjectAcl_present)
next
  show "\<forall>(cfg, call) \<in> set (s3calls (trace (snd (setBucketAclHandler x c r1 (fresh w))))).
        \<exists>b. map_of (decodeBody x r1) ''bucketName'' = Some (JString b)
           \<and> call = PutBucketAcl
                \<lparr>pbACL = None, pbAccessControlPolicy = None, pbBucket = Some b,
                 pbGrantFullControl = None, pbGrantRead = None, pbGrantReadACP = None,
                 pbGrantWrite = None, pbGrantWriteACP = None\<rparr>"
    using setBucketAcl_calls[of _ _ x c r1 w] by (fastforce simp: PutBucketAclInput0_def)
next
  show "\<forall>(cfg, call) \<in> set (s3calls (trace (snd (setObjectAclHandler x c r1 (fresh w))))).
        \<exists>b k. map_of (decodeBody x r1) ''bucketName'' = Some (JString b)
           \<and> map_of (decodeBody x r1) ''objectName'' = Some (JString k)
           \<and> call = PutObjectAcl
                \<lparr>poACL = None, poAccessControlPolicy = None, poBucket = Some b,
                 poGrantFullControl = None, poGrantRead = None, poGrantReadACP = None,
                 poGrantWrite = None, poGrantWriteACP = None, poKey = Some k\<rparr>"
    using setObjectAcl_calls[of _ _ x c r1 w] by (fastforce simp: PutObjectAclInput0_def)
qed


theorem set_acl_call_from_names_only_witness:
  "bodyErr (demoRequest ''alice'' bodyObject) = None
   \<and> bodyErr (demoRequest ''alice'' bodyObjectAcl) = None
   \<and> map_of (decodeBody demoExtern (demoRequest ''alice'' bodyObject)) ''bucketName''
       = Some (JString ''docs'')
   \<and> map_of (decodeBody demoExtern (demoRequest ''alice'' bodyObjectAcl)) ''bucketName''
       = Some (JString ''docs'')
   \<and> map_of (decodeBody demoExtern (demoRequest ''alice'' bodyObject)) ''objectName''
       = Some (JString ''a.txt'')
   \<and> map_of (decodeBody demoExtern (demoRequest ''alice'' bodyObjectAcl)) ''objectName''
       = Some (JString ''a.txt'')
   \<and> s3calls (trace (snd (setBucketAclHandler demoExtern demoConsole
          (demoRequest ''alice'' bodyObject) (fresh 0))))
       = s3calls (trace (snd (setBucketAclHandler demoExtern demoConsole
          (demoRequest ''alice'' bodyObjectAcl) (fresh 0))))
   \<and> s3calls (trace (snd (setObjectAclHandler demoExtern demoConsole
          (demoRequest ''alice'' bodyObject) (fresh 0))))
       = s3calls (trace (snd (setObjectAclHandler demoExtern demoConsole
          (demoRequest ''alice'' bodyObjectAcl) (fresh 0))))
   \<and> s3calls (trace (snd (setBucketAclHandler demoExtern demoConsole
          (demoRequest ''alice'' bodyObjectAcl) (fresh 0))))
       = [(fixedClient, PutBucketAcl
            \<lparr>pbACL = None, pbAccessControlPolicy = None, pbBucket = Some ''docs'',
             pbGrantFullControl = None, pbGrantRead = None, pbGrantReadACP = None,
             pbGrantWrite = None, pbGrantWriteACP = None\<rparr>)]
   \<and> s3calls (trace (snd (setObjectAclHandler demoExtern demoConsole
          (demoRequest ''alice'' bodyObjectAcl) (fresh 0))))
       = [(fixedClient, PutObjectAcl
            \<lparr>poACL = None, poAccessControlPolicy = None, poBucket = Some ''docs'',
             poGrantFullControl = None, poGrantRead = None, poGrantReadACP = None,
             poGrantWrite = None, poGrantWriteACP = None, poKey = Some ''a.txt''\<rparr>)]"
proof -
  let ?r1 = "demoRequest ''alice'' bodyObject"
  let ?r2 = "demoRequest ''alice'' bodyObjectAcl"
  have d1: "decodeBody demoExtern ?r1
      = [(''bucketName'', JString ''docs''), (''objectName'', JString ''a.txt'')]"
    by (simp add: decodeBody_def demo_defs)
  have d2: "decodeBody demoExtern ?r2
      = [(''bucketName'', JString ''docs''), (''objectName'', JString ''a.txt''),
         (''acl'', JString ''private'')]"
    by (simp add: decodeBody_def demo_defs)
  have e: "bodyErr ?r1 = None" "bodyErr ?r2 = None" by (simp_all add: demoRequest_def)
  have b: "map_of (decodeBody demoExtern ?r1) ''bucketName'' = Some (JString ''docs'')"
          "map_of (decodeBody demoExtern ?r2) ''bucketName'' = Some (JString ''docs'')"
    by (simp_all add: d1 d2)
  have k: "map_of (decodeBody demoExtern ?r1) ''objectName'' = Some (JString ''a.txt'')"
          "map_of (decodeBody demoExtern ?r2) ''objectName'' = Some (JString ''a.txt'')"
    by (simp_all add: d1 d2)
  have n: "NewSession demoExtern fixedClient = None" by (simp add: demoExtern_def)
  have cb: "s3calls (trace (snd (setBucketAclHandler demoExtern demoConsole ?r2 (fresh 0))))
       = [(fixedClient, PutBucketAcl
            \<lparr>pbACL = None, pbAccessControlPolicy = None, pbBucket = Some ''docs'',
             pbGrantFullControl = None, pbGrantRead = None, pbGrantReadACP = None,
             pbGrantWrite = None, pbGrantWriteACP = None\<rparr>)]"
    unfolding setBucketAcl_present[OF e(2) b(2)] n
    by (simp add: state_defs fresh_def PutBucketAclInput0_def demoExtern_def)
  have co: "s3calls (trace (snd (setObjectAclHandler demoExtern demoConsole ?r2 (fresh 0))))
       = [(fixedClient, PutObjectAcl
            \<lparr>poACL = None, poAccessControlPolicy = None, poBucket = Some ''docs'',
             poGrantFullControl = None, poGrantRead = None, poGrantReadACP = None,
             poGrantWrite = None, poGrantWriteACP = None, poKey = Some ''a.txt''\<rparr>)]"
    unfolding setObjectAcl_present[OF e(2) b(2) k(2)] n
    by (simp add: state_defs fresh_def PutObjectAclInput0_def demoExtern_def)
  from set_acl_call_from_names_only
         [of ?r1 ?r2 demoExtern "JString ''docs''" demoConsole 0 "JString ''a.txt''"]
       e b k cb co
  show ?thesis by blast
qed

subsection \<open>Reading and decoding the request body\<close>














subsection \<open>What the handlers do with a result they do not check\<close>

text \<open>
  Facts about every environment: \<open>getS3Keys\<close> returns its error for an empty userId
  and returns keys only for a non-empty userId on which the auth node succeeded;
  delete-bucket answers with success whatever the
  wait for the bucket to disappear returns; list-objects panics when one of prefix,
  maxKeys, startAfter is absent; get-object never sends a header that carries a value
  set by the handler; and the MaxKeys of the list call is the value \<open>ParseInt\<close>
  returned for a non-empty maxKeys, with or without an error.
\<close>

lemma getS3Keys_empty_userId:
  "map_of (query r) ''userId'' = Some ([] # us) \<Longrightarrow>
   getS3Keys x c r s
     = (Ret (Inl ''can not get user id from request''),
        logErrorf ''getS3Keys : user id is empty'' s)"
  by (simp add: getS3Keys_def)

lemma getS3Keys_returns_keys:
  assumes "getS3Keys x c r s = (Ret (Inr (ak, sk)), s1)"
  shows "\<exists>u us. map_of (query r) ''userId'' = Some (u # us) \<and> u \<noteq> []
           \<and> fst (AdminGetCaps x (consoleId c) (consoleKey c) u (world s)) = Inr (ak, sk)"
  using assms
  by (auto simp: getS3Keys_def state_defs Let_def
           split: list.splits option.splits if_splits prod.splits sum.splits)

lemma deleteBucket_wait_result_unread:
  assumes "bodyErr r = None"
    and "map_of (decodeBody x r) ''bucketName'' = Some (JString b)"
    and "getS3Client x c r s = (Ret (Inr cl), s1)"
    and "extcall (S3Call cl (DeleteBucket b)) (sdk_DeleteBucket x cl b) s1 = (None, s2)"
    and "extcall (S3Call cl (WaitUntilBucketNotExists b)) (sdk_WaitUntilBucketNotExists x cl b) s2
           = (err, s3)"
  shows "deleteBucketHandler x c r s
           = (Ret (), writeSuccessResponse (logInfof ''Delete bucket %s success'' s3))"
  using assms by (simp add: deleteBucketHandler_def Let_def)

lemma getObjectList_absent_field_panics:
  assumes "bodyErr r = None"
    and "map_of (decodeBody x r) ''prefix'' = None
         \<or> map_of (decodeBody x r) ''maxKeys'' = None
         \<or> map_of (decodeBody x r) ''startAfter'' = None"
  shows "\<exists>p. getObjectListHandler x c r s = (Panic p, s)"
  using assms
  by (auto simp: getObjectListHandler_def Let_def split: go.splits)

lemma getObject_sends_no_handler_header:
  "sentHeader (rw (snd (getObjectHandler x c r (fresh w)))) = []"
proof -
  obtain res s1 where g: "getS3Client x c r (fresh w) = (res, s1)"
    by (cases "getS3Client x c r (fresh w)")
  from getS3Client_frame[OF g] have "rw s1 = rw0" by (simp add: fresh_def)
  with g show ?thesis
    by (auto simp: getObjectHandler_def state_defs rw_defs Let_def fresh_def
             split: go.splits sum.splits prod.splits option.splits if_splits)
qed

lemma getObjectList_call:
  assumes "bodyErr r = None"
    and "map_of (decodeBody x r) ''prefix'' = Some (JString p)"
    and "map_of (decodeBody x r) ''maxKeys'' = Some (JString m)"
    and "map_of (decodeBody x r) ''startAfter'' = Some (JString a)"
    and "map_of (decodeBody x r) ''bucketName'' = Some (JString b)"
    and "getS3Client x c r s = (Ret (Inr cl), s1)"
  shows "s3calls (trace (snd (getObjectListHandler x c r s)))
           = s3calls (trace s) @
             [(cl, ListObjectsV2 (listInput b p a
                     (if m = [] then fst (ParseInt (S3ListObjectsMaxKeys x))
                      else fst (ParseInt m))))]"
proof -
  from getS3Client_frame[OF assms(6)] have f: "s3calls (trace s1) = s3calls (trace s)" by simp
  show ?thesis
  proof (cases "m = []")
    case True
    with assms f show ?thesis
      by (auto simp: getObjectListHandler_def state_defs s3calls_append Let_def
               split: go.splits sum.splits prod.splits)
  next
    case False
    obtain v e where pi: "ParseInt m = (v, e)" by (cases "ParseInt m")
    with False assms f show ?thesis
      by (cases e)
         (auto simp: getObjectListHandler_def state_defs s3calls_append Let_def
               split: go.splits sum.splits prod.splits)
  qed
qed

subsection \<open>Evaluations of the handlers on the sample deployment\<close>

text \<open>
  C1. Delete-bucket on a store whose delete succeeds and whose wait for the bucket to
  disappear returns an error: the handler issues the delete and then the wait, and
  responds with the success envelope.
\<close>

theorem wait_error_ignored:
  "fst (deleteBucketHandler demoWaitFails demoConsole (demoRequest ''alice'' bodyBucket) (fresh 0))
     = Ret ()
   \<and> s3calls (trace (snd (deleteBucketHandler demoWaitFails demoConsole
        (demoRequest ''alice'' bodyBucket) (fresh 0))))
     = [(aliceClient, DeleteBucket ''docs''), (aliceClient, WaitUntilBucketNotExists ''docs'')]
   \<and> fst (sdk_WaitUntilBucketNotExists demoWaitFails aliceClient ''docs'' 2)
     = Some ''ResourceNotReady''
   \<and> body (rw (snd (deleteBucketHandler demoWaitFails demoConsole
        (demoRequest ''alice'' bodyBucket) (fresh 0))))
     = [Envelope Success]"
  by (simp add: deleteBucketHandler_def decodeBody_def getS3Client_def getS3Keys_def
        state_defs fresh_def rw_defs demo_defs)

text \<open>
  C2. List-objects with \<open>maxKeys\<close> set to the string abc, where the package default
  parses to 1000: the failed parse assigns 0 to \<open>maxKeysInt\<close>, and the list call is
  issued with MaxKeys 0.
\<close>

theorem unparsable_maxKeys_sends_zero:
  "ParseInt (S3ListObjectsMaxKeys demoExtern) = (1000, None)
   \<and> map_of (decodeBody demoExtern (demoRequest ''alice'' bodyList)) ''maxKeys''
       = Some (JString ''abc'')
   \<and> ParseInt ''abc'' = (0, Some ErrSyntax)
   \<and> s3calls (trace (snd (getObjectListHandler demoExtern demoConsole
        (demoRequest ''alice'' bodyList) (fresh 0))))
     = [(aliceClient, ListObjectsV2
          \<lparr>loBucket = Some ''docs'', loPrefix = None, loStartAfter = None,
           loMaxKeys = Some 0\<rparr>)]"
  by (simp add: getObjectListHandler_def decodeBody_def getS3Client_def getS3Keys_def
        listInput_def ParseInt_def ParseUint_def digitVal_def maxUint64_def
        state_defs fresh_def rw_defs demo_defs)

text \<open>
  C4. On a request without a \<open>userId\<close> query parameter \<open>getS3Keys\<close> returns neither an
  error nor a key pair: indexing the nil slice panics, before anything is logged or the
  auth node is called.
\<close>

theorem absent_userId_panics:
  "getS3Keys x c (r\<lparr>query := []\<rparr>) s = (Panic ''index out of range'', s)"
  by (simp add: getS3Keys_def)

text \<open>
  C5. List-objects with a body that holds \<open>bucketName\<close> and none of \<open>prefix\<close>,
  \<open>startAfter\<close>, \<open>maxKeys\<close>: the type assertion on the missing \<open>prefix\<close> panics, and
  the handler ends without a store call and without a response.
\<close>

theorem omitted_optional_field_panics:
  "map_of (decodeBody demoExtern (demoRequest ''alice'' bodyBucket)) ''bucketName''
     = Some (JString ''docs'')
   \<and> getObjectListHandler demoExtern demoConsole (demoRequest ''alice'' bodyBucket) (fresh 0)
     = (Panic ''interface conversion: interface {} is not string'', fresh 0)"
  by (simp add: getObjectListHandler_def decodeBody_def demo_defs)

text \<open>
  C8. Get-object when probe and fetch succeed: the status line is sent with the header
  map still empty, so the response carries none of Content-Type, Content-Disposition
  and Content-Length; the three values only reach the handler's header map, after the
  header was sent. The body bytes follow.
\<close>

theorem download_headers_not_sent:
  "fst (getObjectHandler demoExtern demoConsole (demoRequest ''alice'' bodyObject) (fresh 0))
     = Ret ()
   \<and> rw (snd (getObjectHandler demoExtern demoConsole (demoRequest ''alice'' bodyObject) (fresh 0)))
     = \<lparr>handlerHeader = [(''Content-Type'', ''application/json''),
                          (''Content-Disposition'', ''attachment; filename=a.txt''),
                          (''Content-Length'', ''5'')],
        wroteHeader = True, status = 200, sentHeader = [], body = [Bytes ''hello'']\<rparr>"
  by (simp add: getObjectHandler_def decodeBody_def getS3Client_def getS3Keys_def
        header_Get_def FormatInt_def formatUint.simps digitChar_def
        state_defs fresh_def rw_defs demo_defs)

end
